theory Spec2Isabelle
  imports Main "HOL-Library.AList"
begin

section \<open>JavaScript values\<close>

text \<open>
  The rule \<^verbatim>\<open>activate-new-users-in-CIS.js\<close> works on JSON documents (the profile
  skeleton, the bodies of the HTTP responses) and on members of the user record. A value
  is one of JavaScript's primitives, an array or a plain object. An object is the list of
  its own members in insertion order. An array carries its elements and, since JavaScript
  lets a program store named members on an array, a second list for those. Numbers are
  the integer-valued ones (the ids the rule handles); fractions are not modelled.
\<close>

datatype jsval =
    JUndefined
  | JNull
  | JBool bool
  | JNum int
  | JStr string
  | JArr "jsval list" "(string \<times> jsval) list"
  | JObj "(string \<times> jsval) list"

datatype error =
    TypeError
  | JwtError
  | FetchError
  | Error string

text \<open>Truthiness, as \<^verbatim>\<open>if (x)\<close>, \<^verbatim>\<open>!x\<close>, \<^verbatim>\<open>x && y\<close> and \<^verbatim>\<open>x || y\<close> test it.\<close>

fun truthy :: "jsval \<Rightarrow> bool" where
  "truthy JUndefined = False"
| "truthy JNull = False"
| "truthy (JBool b) = b"
| "truthy (JNum n) = (n \<noteq> 0)"
| "truthy (JStr s) = (s \<noteq> [])"
| "truthy (JArr xs ps) = True"
| "truthy (JObj kvs) = True"

definition js_or :: "jsval \<Rightarrow> jsval \<Rightarrow> jsval" where
  "js_or a b = (if truthy a then a else b)"

fun nullish :: "jsval \<Rightarrow> bool" where
  "nullish JUndefined = True"
| "nullish JNull = True"
| "nullish v = False"

text \<open>
  Reading a member \<^verbatim>\<open>o.k\<close>: a \<^verbatim>\<open>TypeError\<close> on \<^verbatim>\<open>undefined\<close> and \<^verbatim>\<open>null\<close>, the own
  member of an object or array, \<^verbatim>\<open>undefined\<close> otherwise. The member names the rule reads
  are none of the built-in members of the prototypes; \<^verbatim>\<open>constructor\<close>, the one inherited
  member the rule reads, is \<open>constructor_is_Object\<close> below.
\<close>

fun get_prop :: "jsval \<Rightarrow> string \<Rightarrow> error + jsval" where
  "get_prop JUndefined k = Inl TypeError"
| "get_prop JNull k = Inl TypeError"
| "get_prop (JObj kvs) k = Inr (case map_of kvs k of None \<Rightarrow> JUndefined | Some v \<Rightarrow> v)"
| "get_prop (JArr xs ps) k = Inr (case map_of ps k of None \<Rightarrow> JUndefined | Some v \<Rightarrow> v)"
| "get_prop v k = Inr JUndefined"

text \<open>A member of a value known to be neither \<^verbatim>\<open>undefined\<close> nor \<^verbatim>\<open>null\<close> (so the read cannot throw).\<close>

definition member :: "jsval \<Rightarrow> string \<Rightarrow> jsval" where
  "member v k = (case get_prop v k of Inl e \<Rightarrow> JUndefined | Inr x \<Rightarrow> x)"

text \<open>
  Writing a member \<^verbatim>\<open>o.k = v\<close>, returning the target as it is afterwards: a
  \<^verbatim>\<open>TypeError\<close> on \<^verbatim>\<open>undefined\<close> and \<^verbatim>\<open>null\<close>; an object or array gets the member (in
  place when it has one, appended otherwise); a write to a primitive is dropped (the
  rule is not in strict mode).
\<close>

fun set_prop :: "jsval \<Rightarrow> string \<Rightarrow> jsval \<Rightarrow> error + jsval" where
  "set_prop JUndefined k v = Inl TypeError"
| "set_prop JNull k v = Inl TypeError"
| "set_prop (JObj kvs) k v = Inr (JObj (AList.update k v kvs))"
| "set_prop (JArr xs ps) k v = Inr (JArr xs (AList.update k v ps))"
| "set_prop t k v = Inr t"

text \<open>\<^verbatim>\<open>delete(o.k)\<close>\<close>

fun delete_prop :: "jsval \<Rightarrow> string \<Rightarrow> jsval" where
  "delete_prop (JObj kvs) k = JObj (AList.delete k kvs)"
| "delete_prop (JArr xs ps) k = JArr xs (AList.delete k ps)"
| "delete_prop t k = t"

text \<open>
  \<^verbatim>\<open>x.constructor === Object\<close> for a value that is neither \<^verbatim>\<open>undefined\<close> nor \<^verbatim>\<open>null\<close>:
  true of an object that inherits the member, false of an object with a member of its own
  named \<^verbatim>\<open>constructor\<close> (a JSON value is never the function \<^verbatim>\<open>Object\<close>), of arrays and of
  primitives.
\<close>

fun constructor_is_Object :: "jsval \<Rightarrow> bool" where
  "constructor_is_Object (JObj kvs) = (map_of kvs ''constructor'' = None)"
| "constructor_is_Object v = False"

text \<open>
  \<^verbatim>\<open>Number.prototype.toString\<close> on an integer: the decimal digits, with a minus sign
  (for magnitudes below \<open>10\<^sup>2\<^sup>1\<close>, where JavaScript changes to exponent notation).
\<close>

definition digit_char :: "int \<Rightarrow> char" where
  "digit_char d =
     (if d = 0 then CHR ''0'' else if d = 1 then CHR ''1'' else if d = 2 then CHR ''2''
      else if d = 3 then CHR ''3'' else if d = 4 then CHR ''4'' else if d = 5 then CHR ''5''
      else if d = 6 then CHR ''6'' else if d = 7 then CHR ''7'' else if d = 8 then CHR ''8''
      else CHR ''9'')"

function digits :: "int \<Rightarrow> string" where
  "digits i = (if i < 10 then [digit_char i] else digits (i div 10) @ [digit_char (i mod 10)])"
  by pat_completeness auto
termination
  by (relation "measure nat") auto

definition number_toString :: "int \<Rightarrow> string" where
  "number_toString i = (if i < 0 then CHR ''-'' # digits (- i) else digits i)"

section \<open>The attribute signer\<close>

definition PUBLISHER_NAME :: string where
  "PUBLISHER_NAME = ''access_provider''"

text \<open>
  The signature that \<^verbatim>\<open>signAttribute\<close> stores (lines 275 to 288), for the value
  \<open>s\<close> that \<^verbatim>\<open>jwt.sign\<close> returned.
\<close>

definition new_signature :: "string \<Rightarrow> jsval" where
  "new_signature s = JObj
     [(''additional'', JArr [JObj [(''alg'', JStr ''RS256''), (''name'', JNull),
                                   (''typ'', JStr ''JWS''), (''value'', JStr [])]] []),
      (''publisher'', JObj [(''alg'', JStr ''RS256''), (''name'', JStr PUBLISHER_NAME),
                            (''typ'', JStr ''JWS''), (''value'', JStr s)])]"

text \<open>
  The signing proper, the part of \<^verbatim>\<open>signAttribute\<close> after its guard (lines 267 to 290).
  \<^verbatim>\<open>jwt.sign\<close> with the private key is the parameter \<open>jwt\<close>: \<open>None\<close> when it throws. It
  gets the attribute after the old signature is deleted. The attribute is mutated in
  place in the source; here the function returns it.
\<close>

definition sign_with :: "(jsval \<Rightarrow> string option) \<Rightarrow> jsval \<Rightarrow> error + jsval" where
  "sign_with jwt attr =
     (case get_prop attr ''value'' of Inl e \<Rightarrow> Inl e | Inr val \<Rightarrow>
      case (case val of
              JNum n \<Rightarrow> if truthy val then set_prop attr ''value'' (JStr (number_toString n))
                        else Inr attr
            | _ \<Rightarrow> Inr attr) of Inl e \<Rightarrow> Inl e | Inr attr1 \<Rightarrow>
      let attr2 = delete_prop attr1 ''signature'' in
      case jwt attr2 of None \<Rightarrow> Inl JwtError | Some s \<Rightarrow>
      set_prop attr2 ''signature'' (new_signature s))"

text \<open>\<^verbatim>\<open>signAttribute\<close> (lines 257 to 291): the guard of line 263, then the signing.\<close>

definition signAttribute :: "(jsval \<Rightarrow> string option) \<Rightarrow> jsval \<Rightarrow> error + jsval" where
  "signAttribute jwt attr =
     (case get_prop attr ''signature'' of Inl e \<Rightarrow> Inl e | Inr sig \<Rightarrow>
      if \<not> truthy sig then Inr attr else
      case get_prop sig ''publisher'' of Inl e \<Rightarrow> Inl e | Inr pub \<Rightarrow>
      case get_prop pub ''name'' of Inl e \<Rightarrow> Inl e | Inr nm \<Rightarrow>
      if nm \<noteq> JStr PUBLISHER_NAME then Inr attr else
      case get_prop attr ''value'' of Inl e \<Rightarrow> Inl e | Inr val \<Rightarrow>
      if val = JNull then Inr attr else
      case get_prop attr ''values'' of Inl e \<Rightarrow> Inl e | Inr vals \<Rightarrow>
      if vals = JNull then Inr attr else
      sign_with jwt attr)"

text \<open>
  \<^verbatim>\<open>signAll\<close> (lines 244 to 255). \<open>signChild\<close> is the function given to \<^verbatim>\<open>forEach\<close>;
  \<open>signFields\<close> and \<open>signElems\<close> run it over the members \<^verbatim>\<open>Object.values\<close> lists, in order,
  and stop at the first exception. \<^verbatim>\<open>Object.values\<close> throws on \<^verbatim>\<open>undefined\<close> and
  \<^verbatim>\<open>null\<close>, gives the characters of a string (primitives, which \<open>signChild\<close> leaves alone)
  and nothing for a number or a boolean.
\<close>

fun signAll :: "(jsval \<Rightarrow> string option) \<Rightarrow> jsval \<Rightarrow> error + jsval"
  and signChild :: "(jsval \<Rightarrow> string option) \<Rightarrow> jsval \<Rightarrow> error + jsval"
  and signFields :: "(jsval \<Rightarrow> string option) \<Rightarrow> (string \<times> jsval) list \<Rightarrow> error + (string \<times> jsval) list"
  and signElems :: "(jsval \<Rightarrow> string option) \<Rightarrow> jsval list \<Rightarrow> error + jsval list"
where
  "signAll jwt JUndefined = Inl TypeError"
| "signAll jwt JNull = Inl TypeError"
| "signAll jwt (JBool b) = Inr (JBool b)"
| "signAll jwt (JNum n) = Inr (JNum n)"
| "signAll jwt (JStr s) = Inr (JStr s)"
| "signAll jwt (JArr xs ps) =
     (case signElems jwt xs of Inl e \<Rightarrow> Inl e | Inr xs' \<Rightarrow>
      case signFields jwt ps of Inl e \<Rightarrow> Inl e | Inr ps' \<Rightarrow> Inr (JArr xs' ps'))"
| "signAll jwt (JObj kvs) =
     (case signFields jwt kvs of Inl e \<Rightarrow> Inl e | Inr kvs' \<Rightarrow> Inr (JObj kvs'))"
| "signChild jwt attr =
     (if nullish attr then Inl TypeError
      else if constructor_is_Object attr \<and> truthy (member attr ''signature'')
        then signAttribute jwt attr
      else if constructor_is_Object attr \<and> \<not> truthy (member attr ''signature'')
        then signAll jwt attr
      else Inr attr)"
| "signFields jwt [] = Inr []"
| "signFields jwt ((k, v) # kvs) =
     (case signChild jwt v of Inl e \<Rightarrow> Inl e | Inr v' \<Rightarrow>
      case signFields jwt kvs of Inl e \<Rightarrow> Inl e | Inr kvs' \<Rightarrow> Inr ((k, v') # kvs'))"
| "signElems jwt [] = Inr []"
| "signElems jwt (x # xs) =
     (case signChild jwt x of Inl e \<Rightarrow> Inl e | Inr x' \<Rightarrow>
      case signElems jwt xs of Inl e \<Rightarrow> Inl e | Inr xs' \<Rightarrow> Inr (x' # xs'))"

section \<open>The profile builder\<close>

record identity =
  connection :: jsval
  provider :: jsval
  identity_user_id :: jsval
  profileData :: jsval

record user =
  user_id :: jsval
  email :: jsval
  given_name :: jsval
  name :: jsval
  family_name :: jsval
  nickname :: jsval
  identities :: "identity list"
  user_metadata :: "(string \<times> jsval) list option"

definition WHITELISTED_CONNECTIONS :: "string list" where
  "WHITELISTED_CONNECTIONS = [''email'', ''firefoxaccounts'', ''github'', ''google-oauth2'', ''oauth2'']"

text \<open>\<^verbatim>\<open>WHITELISTED_CONNECTIONS.includes(x)\<close>\<close>

fun whitelisted :: "jsval \<Rightarrow> bool" where
  "whitelisted (JStr s) = (s \<in> set WHITELISTED_CONNECTIONS)"
| "whitelisted v = False"

text \<open>
  An assignment \<^verbatim>\<open>profile.a.b.c = v\<close>: the members on the way are read (a
  \<^verbatim>\<open>TypeError\<close> where one is \<^verbatim>\<open>undefined\<close> or \<^verbatim>\<open>null\<close>), the last one is written. The
  source mutates the document in place; here the document is rebuilt around the change.
\<close>

fun set_path :: "jsval \<Rightarrow> string list \<Rightarrow> jsval \<Rightarrow> error + jsval" where
  "set_path obj [] v = Inr obj"
| "set_path obj [k] v = set_prop obj k v"
| "set_path obj (k # ks) v =
     (case get_prop obj k of Inl e \<Rightarrow> Inl e | Inr child \<Rightarrow>
      case set_path child ks v of Inl e \<Rightarrow> Inl e | Inr child' \<Rightarrow> set_prop obj k child')"

text \<open>A read \<^verbatim>\<open>profile.a.b.c\<close>.\<close>

fun get_path :: "jsval \<Rightarrow> string list \<Rightarrow> error + jsval" where
  "get_path obj [] = Inr obj"
| "get_path obj (k # ks) =
     (case get_prop obj k of Inl e \<Rightarrow> Inl e | Inr child \<Rightarrow> get_path child ks)"

text \<open>A block of assignments, in order, up to the first exception.\<close>

fun apply_writes :: "(string list \<times> jsval) list \<Rightarrow> jsval \<Rightarrow> error + jsval" where
  "apply_writes [] p = Inr p"
| "apply_writes ((path, v) # ws) p =
     (case set_path p path v of Inl e \<Rightarrow> Inl e | Inr p' \<Rightarrow> apply_writes ws p')"

text \<open>Lines 105 to 126; \<open>now\<close> is \<^verbatim>\<open>new Date().toISOString()\<close>.\<close>

definition top_level_writes :: "string \<Rightarrow> user \<Rightarrow> jsval \<Rightarrow> (string list \<times> jsval) list" where
  "top_level_writes now u USER_ID =
     [([''active'', ''metadata'', ''last_modified''], JStr now),
      ([''active'', ''signature'', ''publisher'', ''name''], JStr PUBLISHER_NAME),
      ([''active'', ''value''], JBool True),
      ([''first_name'', ''metadata'', ''display''], JStr ''private''),
      ([''first_name'', ''metadata'', ''last_modified''], JStr now),
      ([''first_name'', ''signature'', ''publisher'', ''name''], JStr PUBLISHER_NAME),
      ([''first_name'', ''value''],
         js_or (js_or (js_or (js_or (given_name u) (name u)) (family_name u)) (nickname u)) (JStr '' '')),
      ([''last_name'', ''metadata'', ''display''], JStr ''private''),
      ([''last_name'', ''metadata'', ''last_modified''], JStr now),
      ([''last_name'', ''signature'', ''publisher'', ''name''], JStr PUBLISHER_NAME),
      ([''last_name'', ''value''], (if truthy (family_name u) then family_name u else JStr '' '')),
      ([''primary_email'', ''metadata'', ''last_modified''], JStr now),
      ([''primary_email'', ''signature'', ''publisher'', ''name''], JStr PUBLISHER_NAME),
      ([''primary_email'', ''value''], email u),
      ([''user_id'', ''metadata'', ''last_modified''], JStr now),
      ([''user_id'', ''signature'', ''publisher'', ''name''], JStr PUBLISHER_NAME),
      ([''user_id'', ''value''], USER_ID)]"

text \<open>Lines 140 to 142.\<close>

definition login_method_writes :: "string \<Rightarrow> identity \<Rightarrow> (string list \<times> jsval) list" where
  "login_method_writes now ident =
     [([''login_method'', ''metadata'', ''last_modified''], JStr now),
      ([''login_method'', ''signature'', ''publisher'', ''name''], JStr PUBLISHER_NAME),
      ([''login_method'', ''value''], connection ident)]"

text \<open>Lines 146 to 149.\<close>

definition github_id_v3_writes :: "string \<Rightarrow> identity \<Rightarrow> (string list \<times> jsval) list" where
  "github_id_v3_writes now ident =
     [([''identities'', ''github_id_v3'', ''metadata'', ''display''], JStr ''private''),
      ([''identities'', ''github_id_v3'', ''metadata'', ''last_modified''], JStr now),
      ([''identities'', ''github_id_v3'', ''signature'', ''publisher'', ''name''], JStr PUBLISHER_NAME),
      ([''identities'', ''github_id_v3'', ''value''], identity_user_id ident)]"

text \<open>Lines 152 to 154.\<close>

definition usernames_writes :: "user \<Rightarrow> (string list \<times> jsval) list" where
  "usernames_writes u =
     [([''usernames'', ''metadata'', ''display''], JStr ''private''),
      ([''usernames'', ''signature'', ''publisher'', ''name''], JStr PUBLISHER_NAME),
      ([''usernames'', ''values''], JObj [(''HACK#GITHUB'', nickname u)])]"

text \<open>Lines 159 to 168.\<close>

definition github_profileData_writes :: "string \<Rightarrow> identity \<Rightarrow> (string list \<times> jsval) list" where
  "github_profileData_writes now ident =
     [([''identities'', ''github_id_v4'', ''metadata'', ''display''], JStr ''private''),
      ([''identities'', ''github_id_v4'', ''metadata'', ''last_modified''], JStr now),
      ([''identities'', ''github_id_v4'', ''signature'', ''publisher'', ''name''], JStr PUBLISHER_NAME),
      ([''identities'', ''github_id_v4'', ''value''], member (profileData ident) ''node_id''),
      ([''identities'', ''github_primary_email'', ''metadata'', ''display''], JStr ''private''),
      ([''identities'', ''github_primary_email'', ''metadata'', ''last_modified''], JStr now),
      ([''identities'', ''github_primary_email'', ''metadata'', ''verified''],
         JBool (member (profileData ident) ''email_verified'' = JBool True)),
      ([''identities'', ''github_primary_email'', ''signature'', ''publisher'', ''name''], JStr PUBLISHER_NAME),
      ([''identities'', ''github_primary_email'', ''value''], member (profileData ident) ''email'')]"

text \<open>Lines 173 to 181.\<close>

definition google_writes :: "string \<Rightarrow> user \<Rightarrow> identity \<Rightarrow> (string list \<times> jsval) list" where
  "google_writes now u ident =
     [([''identities'', ''google_oauth2_id'', ''metadata'', ''display''], JStr ''private''),
      ([''identities'', ''google_oauth2_id'', ''metadata'', ''last_modified''], JStr now),
      ([''identities'', ''google_oauth2_id'', ''signature'', ''publisher'', ''name''], JStr PUBLISHER_NAME),
      ([''identities'', ''google_oauth2_id'', ''value''], identity_user_id ident),
      ([''identities'', ''google_primary_email'', ''metadata'', ''display''], JStr ''private''),
      ([''identities'', ''google_primary_email'', ''metadata'', ''last_modified''], JStr now),
      ([''identities'', ''google_primary_email'', ''signature'', ''publisher'', ''name''], JStr PUBLISHER_NAME),
      ([''identities'', ''google_primary_email'', ''value''], email u)]"

text \<open>Lines 185 to 193.\<close>

definition firefox_writes :: "string \<Rightarrow> user \<Rightarrow> identity \<Rightarrow> (string list \<times> jsval) list" where
  "firefox_writes now u ident =
     [([''identities'', ''firefox_accounts_id'', ''metadata'', ''display''], JStr ''private''),
      ([''identities'', ''firefox_accounts_id'', ''metadata'', ''last_modified''], JStr now),
      ([''identities'', ''firefox_accounts_id'', ''signature'', ''publisher'', ''name''], JStr PUBLISHER_NAME),
      ([''identities'', ''firefox_accounts_id'', ''value''], identity_user_id ident),
      ([''identities'', ''firefox_accounts_primary_email'', ''metadata'', ''display''], JStr ''private''),
      ([''identities'', ''firefox_accounts_primary_email'', ''metadata'', ''last_modified''], JStr now),
      ([''identities'', ''firefox_accounts_primary_email'', ''signature'', ''publisher'', ''name''], JStr PUBLISHER_NAME),
      ([''identities'', ''firefox_accounts_primary_email'', ''value''], email u)]"

text \<open>The mapping by provider of a whitelisted identity (lines 145 to 194).\<close>

definition provider_mapping :: "string \<Rightarrow> user \<Rightarrow> identity \<Rightarrow> jsval \<Rightarrow> error + jsval" where
  "provider_mapping now u ident p1 =
     (if provider ident = JStr ''github'' then
        (case apply_writes (github_id_v3_writes now ident) p1 of Inl e \<Rightarrow> Inl e | Inr p2 \<Rightarrow>
         case (if truthy (nickname u) then apply_writes (usernames_writes u) p2 else Inr p2) of
           Inl e \<Rightarrow> Inl e
         | Inr p3 \<Rightarrow>
             if truthy (profileData ident) then apply_writes (github_profileData_writes now ident) p3
             else Inr p3)
      else if provider ident = JStr ''google-oauth2'' then apply_writes (google_writes now u ident) p1
      else if connection ident = JStr ''firefoxaccounts'' \<and> provider ident = JStr ''oauth2''
        then apply_writes (firefox_writes now u ident) p1
      else Inr p1)"

text \<open>The body of the loop over \<^verbatim>\<open>user.identities\<close> (lines 132 to 194), at index \<open>i\<close>.\<close>

definition identity_step :: "string \<Rightarrow> user \<Rightarrow> nat \<Rightarrow> identity \<Rightarrow> jsval \<Rightarrow> error + jsval" where
  "identity_step now u i ident p =
     (if \<not> whitelisted (connection ident) then Inr p
      else case (if i = 0 then apply_writes (login_method_writes now ident) p else Inr p) of
        Inl e \<Rightarrow> Inl e
      | Inr p1 \<Rightarrow> provider_mapping now u ident p1)"

text \<open>The loop \<^verbatim>\<open>for (let i = 0; i < user.identities.length; i++)\<close>, from index \<open>i\<close> on.\<close>

fun identities_loop :: "string \<Rightarrow> user \<Rightarrow> nat \<Rightarrow> identity list \<Rightarrow> jsval \<Rightarrow> error + jsval" where
  "identities_loop now u i [] p = Inr p"
| "identities_loop now u i (ident # rest) p =
     (case identity_step now u i ident p of Inl e \<Rightarrow> Inl e
      | Inr p' \<Rightarrow> identities_loop now u (Suc i) rest p')"

text \<open>The writes of \<^verbatim>\<open>createPersonProfile\<close> (lines 105 to 195), before the signing.\<close>

definition populate :: "string \<Rightarrow> user \<Rightarrow> jsval \<Rightarrow> jsval \<Rightarrow> error + jsval" where
  "populate now u USER_ID skeleton =
     (case apply_writes (top_level_writes now u USER_ID) skeleton of Inl e \<Rightarrow> Inl e
      | Inr p \<Rightarrow> identities_loop now u 0 (identities u) p)"

section \<open>The bearer token cache\<close>

text \<open>
  The members of \<^verbatim>\<open>global\<close> the rule uses. The creation time is \<open>None\<close> while the
  member is \<^verbatim>\<open>undefined\<close> and a reading of \<^verbatim>\<open>Date.now()\<close>, in milliseconds, afterwards.
\<close>

record globals =
  personapi_bearer_token :: jsval
  personapi_bearer_token_creation_time :: "int option"

text \<open>
  The settings of \<^verbatim>\<open>configuration\<close>: strings, or absent.
\<close>

record configuration =
  changeapi_auth0_private_key :: "string option"
  changeapi_null_profile :: "string option"
  changeapi_url :: "string option"
  personapi_client_id :: "string option"
  personapi_client_secret :: "string option"
  personapi_url :: "string option"
  personapi_audience :: "string option"
  personapi_oauth_url :: "string option"

text \<open>
  What the rule does to the world outside, in the order it does it. \<open>TokenRequest\<close>,
  \<open>StoreGet\<close> and \<open>SubmitPost\<close> are the three calls of \<^verbatim>\<open>fetch\<close> (with the URL setting, the
  bearer token, and the bearer token and the posted profile); \<open>UpdateUserMetadata\<close> is the
  call of \<^verbatim>\<open>auth0.users.updateUserMetadata\<close> and \<open>UpdateSettled\<close> the moment its promise
  settles (\<open>True\<close>: fulfilled); \<open>BuildProfile\<close> and \<open>SignProfile\<close> are the calls of
  \<^verbatim>\<open>createPersonProfile\<close> and of \<^verbatim>\<open>signAll\<close> on the populated profile; \<open>Callback\<close> is a call
  of the caller's \<^verbatim>\<open>callback\<close> with its first argument (\<open>None\<close>: \<^verbatim>\<open>null\<close>, no error).
  The lines written to the console are left out.
\<close>

datatype event =
    TokenRequest "string option"
  | StoreGet jsval
  | SubmitPost jsval jsval
  | UpdateUserMetadata jsval "(string \<times> jsval) list"
  | UpdateSettled bool
  | BuildProfile
  | SignProfile
  | Callback "error option"

text \<open>
  The outcome of \<^verbatim>\<open>fetch\<close> followed by \<^verbatim>\<open>response.json()\<close>: the parsed body, or a
  rejection (transport failure, timeout, a body that is not JSON). The status of the
  response is never looked at by the rule.
\<close>

datatype http_result = Rejected | Body jsval

definition PERSONAPI_BEARER_TOKEN_REFRESH_AGE :: int where
  "PERSONAPI_BEARER_TOKEN_REFRESH_AGE = 64800"

text \<open>
  \<^verbatim>\<open>getBearerToken\<close> (lines 53 to 90). \<open>now1\<close> and \<open>now2\<close> are the readings of
  \<^verbatim>\<open>Date.now()\<close> at lines 57 and 83, \<open>resp\<close> is the outcome of the token request if one is
  made. The result is what the function returns or throws, the globals afterwards and
  the requests made.
\<close>

definition getBearerToken ::
  "configuration \<Rightarrow> globals \<Rightarrow> int \<Rightarrow> int \<Rightarrow> http_result \<Rightarrow> (error + jsval) \<times> globals \<times> event list" where
  "getBearerToken cfg g now1 now2 resp =
     (if truthy (personapi_bearer_token g) \<and>
         (case personapi_bearer_token_creation_time g of None \<Rightarrow> False
          | Some t \<Rightarrow> t \<noteq> 0 \<and> now1 - t < PERSONAPI_BEARER_TOKEN_REFRESH_AGE)
      then (Inr (personapi_bearer_token g), g, [])
      else case resp of
        Rejected \<Rightarrow>
          (Inl (Error ''Unable to retrieve bearer token from Auth0''), g,
           [TokenRequest (personapi_oauth_url cfg)])
      | Body data \<Rightarrow>
          (case get_prop data ''access_token'' of
             Inl e \<Rightarrow>
               (Inl (Error ''Unable to retrieve bearer token from Auth0''), g,
                [TokenRequest (personapi_oauth_url cfg)])
           | Inr tok \<Rightarrow>
               (Inr tok,
                g\<lparr>personapi_bearer_token := tok, personapi_bearer_token_creation_time := Some now2\<rparr>,
                [TokenRequest (personapi_oauth_url cfg)])))"

section \<open>The rule\<close>

record rule_context =
  primaryUserMetadata :: "(string \<times> jsval) list option"
  primaryUser :: jsval
  connectionStrategy :: jsval

text \<open>The two places that call \<^verbatim>\<open>getBearerToken\<close>.\<close>

datatype call_site = InGetPersonProfile | InPostProfile

text \<open>
  What one invocation meets outside: \<^verbatim>\<open>jwt.sign\<close> under the configured key, the
  instant \<^verbatim>\<open>new Date().toISOString()\<close>, the decoding of the skeleton setting, the readings
  of \<^verbatim>\<open>Date.now()\<close> at lines 57 and 83 in each of the two calls of \<^verbatim>\<open>getBearerToken\<close>, the
  outcomes of the token requests of the two calls, of the store request and of the
  submission, and whether the metadata update is fulfilled.
\<close>

record env =
  jwt_sign :: "jsval \<Rightarrow> string option"
  now_iso :: string
  parse_null_profile :: "string option \<Rightarrow> error + jsval"
  now_at_check :: "call_site \<Rightarrow> int"
  now_at_store :: "call_site \<Rightarrow> int"
  token_response :: "call_site \<Rightarrow> http_result"
  store_response :: http_result
  submit_response :: http_result
  update_fulfilled :: bool

text \<open>
  What an invocation did: the events in order, the exception thrown to the caller if any,
  the globals and the metadata mapping afterwards.
\<close>

record run =
  events :: "event list"
  raised :: "error option"
  globals_after :: globals
  metadata_after :: "(string \<times> jsval) list"

text \<open>
  \<^verbatim>\<open>createPersonProfile\<close> (lines 92 to 203): what it returns or throws, and the events.
  \<open>parsed\<close> is what
  \<^verbatim>\<open>JSON.parse(Buffer.from(configuration.changeapi_null_profile, 'base64'))\<close> gives: the
  skeleton, or the exception.
\<close>

definition createPersonProfile ::
  "(jsval \<Rightarrow> string option) \<Rightarrow> string \<Rightarrow> user \<Rightarrow> jsval \<Rightarrow> error + jsval \<Rightarrow>
   (error + jsval) \<times> event list" where
  "createPersonProfile jwt now u USER_ID parsed =
     (case parsed of Inl e \<Rightarrow> (Inl e, [BuildProfile]) | Inr skeleton \<Rightarrow>
      case populate now u USER_ID skeleton of Inl e \<Rightarrow> (Inl e, [BuildProfile]) | Inr profile \<Rightarrow>
      (signAll jwt profile, [BuildProfile, SignProfile]))"

text \<open>\<^verbatim>\<open>!configuration.x\<close>\<close>

fun missing :: "string option \<Rightarrow> bool" where
  "missing None = True"
| "missing (Some s) = (s = [])"

text \<open>\<^verbatim>\<open>s.includes(sub)\<close> on a string.\<close>

fun starts_with :: "string \<Rightarrow> string \<Rightarrow> bool" where
  "starts_with s [] = True"
| "starts_with [] (c # sub) = False"
| "starts_with (d # s) (c # sub) = (d = c \<and> starts_with s sub)"

fun str_includes :: "string \<Rightarrow> string \<Rightarrow> bool" where
  "str_includes [] sub = (sub = [])"
| "str_includes (c # s) sub = (starts_with (c # s) sub \<or> str_includes s sub)"

text \<open>\<^verbatim>\<open>configuration.x.includes(sub)\<close>: a \<^verbatim>\<open>TypeError\<close> when the setting is absent.\<close>

fun setting_includes :: "string option \<Rightarrow> string \<Rightarrow> error + bool" where
  "setting_includes None sub = Inl TypeError"
| "setting_includes (Some s) sub = Inr (str_includes s sub)"

text \<open>\<^verbatim>\<open>Object.keys(x).length\<close>\<close>

fun object_keys_length :: "jsval \<Rightarrow> error + nat" where
  "object_keys_length JUndefined = Inl TypeError"
| "object_keys_length JNull = Inl TypeError"
| "object_keys_length (JObj kvs) = Inr (length kvs)"
| "object_keys_length (JArr xs ps) = Inr (length xs + length ps)"
| "object_keys_length (JStr s) = Inr (length s)"
| "object_keys_length v = Inr 0"

text \<open>
  \<^verbatim>\<open>setExistsInCIS\<close> (lines 293 to 305), always called without an argument: the
  metadata mapping afterwards, the call it makes, and what comes later, when the promise
  of the update settles (\<open>fulfilled\<close> tells how). The promise is not returned and not
  awaited; its handlers log, or throw into a rejection nobody handles.
\<close>

definition setExistsInCIS ::
  "bool \<Rightarrow> jsval \<Rightarrow> (string \<times> jsval) list \<Rightarrow>
   (string \<times> jsval) list \<times> event list \<times> event list" where
  "setExistsInCIS fulfilled USER_ID METADATA =
     (let METADATA' = AList.update ''existsInCIS'' (JBool True) METADATA
      in (METADATA', [UpdateUserMetadata USER_ID METADATA'], [UpdateSettled fulfilled]))"

text \<open>
  \<^verbatim>\<open>getPersonProfile\<close> (lines 205 to 221): what the promise settles with, the globals
  afterwards and the requests made. The URL is not part of the event; \<^verbatim>\<open>encodeURI\<close> is
  taken not to throw.
\<close>

definition getPersonProfile ::
  "env \<Rightarrow> configuration \<Rightarrow> globals \<Rightarrow> (error + jsval) \<times> globals \<times> event list" where
  "getPersonProfile E cfg g =
     (case getBearerToken cfg g (now_at_check E InGetPersonProfile) (now_at_store E InGetPersonProfile)
             (token_response E InGetPersonProfile) of
        (Inl e, g1, ev1) \<Rightarrow> (Inl e, g1, ev1)
      | (Inr bearer, g1, ev1) \<Rightarrow>
          (case store_response E of
             Rejected \<Rightarrow> (Inl FetchError, g1, ev1 @ [StoreGet bearer])
           | Body profile \<Rightarrow> (Inr profile, g1, ev1 @ [StoreGet bearer])))"

text \<open>\<^verbatim>\<open>postProfile\<close> (lines 223 to 242), likewise.\<close>

definition postProfile ::
  "env \<Rightarrow> configuration \<Rightarrow> globals \<Rightarrow> jsval \<Rightarrow> (error + jsval) \<times> globals \<times> event list" where
  "postProfile E cfg g profile =
     (case getBearerToken cfg g (now_at_check E InPostProfile) (now_at_store E InPostProfile)
             (token_response E InPostProfile) of
        (Inl e, g2, ev) \<Rightarrow> (Inl e, g2, ev)
      | (Inr bearer, g2, ev) \<Rightarrow>
          (case submit_response E of
             Rejected \<Rightarrow> (Inl FetchError, g2, ev @ [SubmitPost bearer profile])
           | Body response \<Rightarrow> (Inr response, g2, ev @ [SubmitPost bearer profile])))"

text \<open>
  The first handler of the chain (lines 310 to 317), given the body the store answered
  with: what it returns or throws, the metadata mapping afterwards, its events, and the
  events that come later.
\<close>

definition existence_handler ::
  "env \<Rightarrow> user \<Rightarrow> configuration \<Rightarrow> (string \<times> jsval) list \<Rightarrow> jsval \<Rightarrow> jsval \<Rightarrow>
   (error + jsval) \<times> (string \<times> jsval) list \<times> event list \<times> event list" where
  "existence_handler E u cfg METADATA USER_ID profile =
     (case object_keys_length profile of
        Inl e \<Rightarrow> (Inl e, METADATA, [], [])
      | Inr n \<Rightarrow>
          if n \<noteq> 0 then
            (case setExistsInCIS (update_fulfilled E) USER_ID METADATA of
               (METADATA', ev, later) \<Rightarrow>
                 (Inl (Error ''Profile already exists in PersonAPI''), METADATA', ev, later))
          else
            (case createPersonProfile (jwt_sign E) (now_iso E) u USER_ID
                    (parse_null_profile E (changeapi_null_profile cfg)) of
               (r, ev) \<Rightarrow> (r, METADATA, ev, [])))"

text \<open>
  The third handler (lines 319 to 330), given the body the submission answered with.
  On success it calls the callback itself. The callback is taken not to throw.
\<close>

definition response_handler ::
  "env \<Rightarrow> (string \<times> jsval) list \<Rightarrow> jsval \<Rightarrow> jsval \<Rightarrow>
   (error + unit) \<times> (string \<times> jsval) list \<times> event list \<times> event list" where
  "response_handler E METADATA USER_ID response =
     (if nullish response then (Inl TypeError, METADATA, [], [])
      else if constructor_is_Object response \<and> member response ''status_code'' = JNum 200 then
        (case setExistsInCIS (update_fulfilled E) USER_ID METADATA of
           (METADATA', ev, later) \<Rightarrow> (Inr (), METADATA', ev @ [Callback None], later))
      else (Inl (Error ''Unable to create profile in ChangeAPI''), METADATA, [], []))"

text \<open>
  The handler of \<^verbatim>\<open>.catch\<close> (lines 331 to 334): the events so far, then the callback, then
  what comes later.
\<close>

definition caught :: "event list \<Rightarrow> event list \<Rightarrow> globals \<Rightarrow> (string \<times> jsval) list \<Rightarrow> run" where
  "caught evs later g md =
     \<lparr>events = evs @ [Callback None] @ later, raised = None, globals_after = g, metadata_after = md\<rparr>"

text \<open>
  The promise chain (lines 309 to 334). The second handler (line 318) is \<^verbatim>\<open>postProfile\<close>
  itself. The update of the metadata is a call over the network: its promise settles
  after the jobs of the chain that are already due, so what comes later comes last.
\<close>

definition provision ::
  "env \<Rightarrow> user \<Rightarrow> configuration \<Rightarrow> globals \<Rightarrow> (string \<times> jsval) list \<Rightarrow> jsval \<Rightarrow> run" where
  "provision E u cfg g METADATA USER_ID =
     (case getPersonProfile E cfg g of
        (Inl e, g1, ev1) \<Rightarrow> caught ev1 [] g1 METADATA
      | (Inr profile, g1, ev1) \<Rightarrow>
     (case existence_handler E u cfg METADATA USER_ID profile of
        (Inl e, md1, ev2, later) \<Rightarrow> caught (ev1 @ ev2) later g1 md1
      | (Inr profile', md1, ev2, later) \<Rightarrow>
     (case postProfile E cfg g1 profile' of
        (Inl e, g2, ev3) \<Rightarrow> caught (ev1 @ ev2 @ ev3) later g2 md1
      | (Inr response, g2, ev3) \<Rightarrow>
     (case response_handler E md1 USER_ID response of
        (Inl e, md2, ev4, later') \<Rightarrow> caught (ev1 @ ev2 @ ev3 @ ev4) (later @ later') g2 md2
      | (Inr finished, md2, ev4, later') \<Rightarrow>
          \<lparr>events = ev1 @ ev2 @ ev3 @ ev4 @ later @ later', raised = None,
           globals_after = g2, metadata_after = md2\<rparr>))))"

text \<open>
  \<^verbatim>\<open>METADATA\<close> (line 4) and \<^verbatim>\<open>USER_ID\<close> (line 8): of the linked primary account if the
  context names one, of the user otherwise.
\<close>

definition METADATA_of :: "user \<Rightarrow> rule_context \<Rightarrow> (string \<times> jsval) list" where
  "METADATA_of u c =
     (case primaryUserMetadata c of Some m \<Rightarrow> m
      | None \<Rightarrow> (case user_metadata u of Some m \<Rightarrow> m | None \<Rightarrow> []))"

definition USER_ID_of :: "user \<Rightarrow> rule_context \<Rightarrow> jsval" where
  "USER_ID_of u c = js_or (primaryUser c) (user_id u)"

text \<open>The rule (lines 1 to 335): the synchronous checks, then the chain.\<close>

definition rule :: "env \<Rightarrow> user \<Rightarrow> rule_context \<Rightarrow> configuration \<Rightarrow> globals \<Rightarrow> run" where
  "rule E u c cfg g =
     (if missing (changeapi_auth0_private_key cfg) \<or>
         missing (changeapi_null_profile cfg) \<or>
         missing (changeapi_url cfg) \<or>
         missing (personapi_client_id cfg) \<or>
         missing (personapi_client_secret cfg) \<or>
         missing (personapi_url cfg)
      then caught [] [] g (METADATA_of u c)
      else case setting_includes (personapi_audience cfg) ''https'' of
        Inl e \<Rightarrow> \<lparr>events = [], raised = Some e, globals_after = g, metadata_after = METADATA_of u c\<rparr>
      | Inr a \<Rightarrow>
      if a then caught [] [] g (METADATA_of u c)
      else case setting_includes (personapi_url cfg) ''/v'' of
        Inl e \<Rightarrow> \<lparr>events = [], raised = Some e, globals_after = g, metadata_after = METADATA_of u c\<rparr>
      | Inr b \<Rightarrow>
      if b then caught [] [] g (METADATA_of u c)
      else if \<not> whitelisted (connectionStrategy c) then caught [] [] g (METADATA_of u c)
      else if truthy (case map_of (METADATA_of u c) ''existsInCIS'' of None \<Rightarrow> JUndefined | Some v \<Rightarrow> v)
        then caught [] [] g (METADATA_of u c)
      else provision E u cfg g (METADATA_of u c) (USER_ID_of u c))"

section \<open>The words of the specification\<close>

text \<open>
  The attribute signer of the specification tells a leaf from a container by shape: a
  child that carries a \<^verbatim>\<open>signature\<close> sub-record is a leaf, a child that lacks one is a
  container. A leaf is signable when \<^verbatim>\<open>signature.publisher.name\<close> is the publisher
  identity of this system and neither \<^verbatim>\<open>value\<close> nor \<^verbatim>\<open>values\<close> is \<^verbatim>\<open>null\<close>.
\<close>

definition carries_signature_record :: "jsval \<Rightarrow> bool" where
  "carries_signature_record attr = (case member attr ''signature'' of JObj s \<Rightarrow> True | _ \<Rightarrow> False)"

definition lacks_signature :: "jsval \<Rightarrow> bool" where
  "lacks_signature attr = (\<not> truthy (member attr ''signature''))"

definition spec_signable :: "jsval \<Rightarrow> bool" where
  "spec_signable attr =
     (get_path attr [''signature'', ''publisher'', ''name''] = Inr (JStr PUBLISHER_NAME) \<and>
      member attr ''value'' \<noteq> JNull \<and> member attr ''values'' \<noteq> JNull)"

text \<open>The calls of the completion hook among the events, and the calls over the network.\<close>

fun is_callback :: "event \<Rightarrow> bool" where
  "is_callback (Callback e) = True"
| "is_callback ev = False"

fun is_network_call :: "event \<Rightarrow> bool" where
  "is_network_call (TokenRequest url) = True"
| "is_network_call (StoreGet bearer) = True"
| "is_network_call (SubmitPost bearer profile) = True"
| "is_network_call (UpdateUserMetadata uid md) = True"
| "is_network_call ev = False"

fun is_submission :: "event \<Rightarrow> bool" where
  "is_submission (SubmitPost bearer profile) = True"
| "is_submission ev = False"

section \<open>Example inputs\<close>

text \<open>
  A skeleton in the shape of the null profile, cut down to the attributes the examples
  touch: every attribute with its metadata, a signature of no publisher and a \<^verbatim>\<open>null\<close>
  value.
\<close>

definition null_signature :: jsval where
  "null_signature = JObj
     [(''additional'', JArr [JObj [(''name'', JNull), (''value'', JStr [])]] []),
      (''publisher'', JObj [(''name'', JNull), (''value'', JStr [])])]"

definition null_metadata :: jsval where
  "null_metadata = JObj [(''display'', JNull), (''last_modified'', JNull)]"

definition null_attribute :: jsval where
  "null_attribute = JObj [(''metadata'', null_metadata), (''signature'', null_signature), (''value'', JNull)]"

definition null_values_attribute :: jsval where
  "null_values_attribute =
     JObj [(''metadata'', null_metadata), (''signature'', null_signature), (''values'', JNull)]"

definition example_attributes :: "(string \<times> jsval) list" where
  "example_attributes =
     [(''active'', null_attribute),
      (''first_name'', null_attribute),
      (''identities'', JObj
         [(''github_id_v3'', null_attribute),
          (''google_oauth2_id'', null_attribute),
          (''google_primary_email'', null_attribute)]),
      (''last_name'', null_attribute),
      (''login_method'', null_attribute),
      (''primary_email'', null_attribute),
      (''user_id'', null_attribute),
      (''usernames'', null_values_attribute)]"

definition example_skeleton :: jsval where
  "example_skeleton = JObj example_attributes"

text \<open>The same with a member that is \<^verbatim>\<open>null\<close> where an attribute should be.\<close>

definition broken_skeleton :: jsval where
  "broken_skeleton = JObj ((''access_information'', JNull) # example_attributes)"

definition github_identity :: identity where
  "github_identity = \<lparr>connection = JStr ''github'', provider = JStr ''github'',
     identity_user_id = JNum 12345, profileData = JUndefined\<rparr>"

definition google_identity :: identity where
  "google_identity = \<lparr>connection = JStr ''google-oauth2'', provider = JStr ''google-oauth2'',
     identity_user_id = JStr ''1089'', profileData = JUndefined\<rparr>"

definition ldap_identity :: identity where
  "ldap_identity = \<lparr>connection = JStr ''Mozilla-LDAP'', provider = JStr ''ad'',
     identity_user_id = JStr ''octocat'', profileData = JUndefined\<rparr>"

definition example_user :: user where
  "example_user = \<lparr>user_id = JStr ''github|12345'', email = JStr ''octocat@example.com'',
     given_name = JUndefined, name = JStr ''The Octocat'', family_name = JUndefined,
     nickname = JStr ''octocat'', identities = [github_identity], user_metadata = None\<rparr>"

definition example_context :: rule_context where
  "example_context = \<lparr>primaryUserMetadata = None, primaryUser = JUndefined,
     connectionStrategy = JStr ''github''\<rparr>"

definition example_configuration :: configuration where
  "example_configuration = \<lparr>changeapi_auth0_private_key = Some ''a2V5'',
     changeapi_null_profile = Some ''e30='',
     changeapi_url = Some ''https://change.api.sso.mozilla.com'',
     personapi_client_id = Some ''id'',
     personapi_client_secret = Some ''secret'',
     personapi_url = Some ''https://person.api.sso.mozilla.com'',
     personapi_audience = Some ''api.sso.mozilla.com'',
     personapi_oauth_url = Some ''https://auth.mozilla.auth0.com/oauth/token''\<rparr>"

definition empty_globals :: globals where
  "empty_globals = \<lparr>personapi_bearer_token = JUndefined, personapi_bearer_token_creation_time = None\<rparr>"

text \<open>
  A world in which every call succeeds: the store has no profile of the user, the
  submission answers with status code 200.
\<close>

definition example_env :: env where
  "example_env = \<lparr>jwt_sign = (\<lambda>payload. Some ''jws''),
     now_iso = ''2020-01-01T00:00:00.000Z'',
     parse_null_profile = (\<lambda>setting. Inr example_skeleton),
     now_at_check = (\<lambda>site. 1577836800000),
     now_at_store = (\<lambda>site. 1577836800000),
     token_response = (\<lambda>site. Body (JObj [(''access_token'', JStr ''token'')])),
     store_response = Body (JObj []),
     submit_response = Body (JObj [(''status_code'', JNum 200)]),
     update_fulfilled = True\<rparr>"

text \<open>The same world with the broken skeleton configured.\<close>

definition broken_env :: env where
  "broken_env = example_env\<lparr>parse_null_profile := (\<lambda>setting. Inr broken_skeleton)\<rparr>"

text \<open>A world in which the store already has a profile of the user.\<close>

definition existing_env :: env where
  "existing_env = example_env\<lparr>store_response := Body (JObj [(''uuid'', JStr ''c0ffee'')])\<rparr>"

text \<open>Globals with a token cached one second before the readings of the example world.\<close>

definition warm_globals :: globals where
  "warm_globals = \<lparr>personapi_bearer_token = JStr ''cached'',
     personapi_bearer_token_creation_time = Some 1577836799000\<rparr>"

text \<open>A user whose first linked identity is not whitelisted and whose second one is.\<close>

definition linked_user :: user where
  "linked_user = example_user\<lparr>identities := [ldap_identity, github_identity]\<rparr>"

section \<open>Reading results\<close>

text \<open>Objects and arrays, the values that can hold members.\<close>

fun is_container :: "jsval \<Rightarrow> bool" where
  "is_container (JObj kvs) = True"
| "is_container (JArr xs ps) = True"
| "is_container v = False"

text \<open>A read \<^verbatim>\<open>profile.a.b.c\<close> in the outcome of a step that may have thrown.\<close>

definition read_path :: "error + jsval \<Rightarrow> string list \<Rightarrow> error + jsval" where
  "read_path r path = (case r of Inl e \<Rightarrow> Inl e | Inr p \<Rightarrow> get_path p path)"

text \<open>An attribute published by this system, with the given value.\<close>

definition published_attribute :: "jsval \<Rightarrow> jsval" where
  "published_attribute v = JObj
     [(''metadata'', null_metadata),
      (''signature'', JObj [(''additional'', JArr [] []),
                            (''publisher'', JObj [(''name'', JStr ''access_provider''), (''value'', JStr [])])]),
      (''value'', v)]"

text \<open>The same attribute once signed with the signature of the example world.\<close>

definition signed_attribute :: "jsval \<Rightarrow> jsval" where
  "signed_attribute v = JObj
     [(''metadata'', null_metadata), (''value'', v), (''signature'', new_signature ''jws'')]"

text \<open>
  A small profile tree: a published attribute at the top, a container with a published
  attribute in it, a null attribute, and a string.
\<close>

definition example_tree :: jsval where
  "example_tree = JObj
     [(''primary_email'', published_attribute (JStr ''octocat@example.com'')),
      (''identities'', JObj [(''github_id_v3'', published_attribute (JStr ''12345''))]),
      (''user_id'', null_attribute),
      (''schema'', JStr ''v2'')]"

definition signed_tree :: jsval where
  "signed_tree = JObj
     [(''primary_email'', signed_attribute (JStr ''octocat@example.com'')),
      (''identities'', JObj [(''github_id_v3'', signed_attribute (JStr ''12345''))]),
      (''user_id'', null_attribute),
      (''schema'', JStr ''v2'')]"

text \<open>
  A published attribute that has a member of its own named \<^verbatim>\<open>constructor\<close>, and a
  container whose \<^verbatim>\<open>signature\<close> member is a string.
\<close>

definition shadowed_attribute :: jsval where
  "shadowed_attribute = JObj
     [(''constructor'', JStr ''Object''),
      (''metadata'', null_metadata),
      (''signature'', JObj [(''additional'', JArr [] []),
                            (''publisher'', JObj [(''name'', JStr ''access_provider''), (''value'', JStr [])])]),
      (''value'', JStr ''octocat@example.com'')]"

definition labelled_container :: jsval where
  "labelled_container = JObj
     [(''signature'', JStr ''none''),
      (''github_id_v3'', published_attribute (JStr ''12345''))]"

section \<open>The login method of the built profile\<close>

text \<open>
  Writes elsewhere in the document leave a member alone, and a write through three
  members or more goes through containers only.
\<close>

lemma get_prop_set_prop_other:
  "set_prop p k v = Inr p' \<Longrightarrow> k0 \<noteq> k \<Longrightarrow> get_prop p' k0 = get_prop p k0"
  by (cases p) (auto simp: update_conv')

lemma set_prop_container:
  "set_prop p k v = Inr p' \<Longrightarrow> is_container p \<Longrightarrow> is_container p' \<and> get_prop p' k = Inr v"
  by (cases p) (auto simp: update_conv')

lemma get_prop_container: "get_prop p k = Inr c \<Longrightarrow> \<not> nullish c \<Longrightarrow> is_container p"
  by (cases p) auto

lemma set_path_not_nullish: "set_path c (k # ks) v = Inr c' \<Longrightarrow> \<not> nullish c"
  by (cases c; cases ks) auto

lemma set_path_step:
  "set_path p (k # k' # ks) v = Inr p' \<Longrightarrow>
   \<exists>c c'. get_prop p k = Inr c \<and> set_path c (k' # ks) v = Inr c' \<and> set_prop p k c' = Inr p'"
  by (auto split: sum.splits)

lemma set_path_last:
  "set_path p (k # ks) v = Inr p' \<Longrightarrow> \<exists>x. set_prop p k x = Inr p'"
  by (cases ks) (auto split: sum.splits)

lemma set_path_frame:
  "set_path p (k # ks) v = Inr p' \<Longrightarrow> k0 \<noteq> k \<Longrightarrow> get_prop p' k0 = get_prop p k0"
  using set_path_last get_prop_set_prop_other by blast

lemma set_path_keeps_container:
  "set_path p ks v = Inr p' \<Longrightarrow> is_container p \<Longrightarrow> is_container p'"
proof (cases ks)
  case Nil
  then show "set_path p ks v = Inr p' \<Longrightarrow> is_container p \<Longrightarrow> is_container p'" by simp
next
  case (Cons k ks')
  assume a: "set_path p ks v = Inr p'" and c: "is_container p"
  from a Cons obtain x where "set_prop p k x = Inr p'" using set_path_last by blast
  with c show "is_container p'" using set_prop_container by blast
qed

lemma set_path_deep:
  assumes "set_path p (k # k' # k'' # ks) v = Inr p'"
  shows "\<exists>c'. is_container c' \<and> get_prop p' k = Inr c' \<and> is_container p'"
proof -
  from set_path_step[OF assms] obtain c c' where
    g: "get_prop p k = Inr c" and s: "set_path c (k' # k'' # ks) v = Inr c'" and u: "set_prop p k c' = Inr p'"
    by blast
  from set_path_step[OF s] obtain d d' where
    gd: "get_prop c k' = Inr d" and sd: "set_path d (k'' # ks) v = Inr d'" by blast
  from sd have "\<not> nullish d" by (rule set_path_not_nullish)
  with gd have cc: "is_container c" by (rule get_prop_container)
  with s have cc': "is_container c'" by (rule set_path_keeps_container)
  from s have "\<not> nullish c" by (rule set_path_not_nullish)
  with g have "is_container p" by (rule get_prop_container)
  with u have "is_container p' \<and> get_prop p' k = Inr c'" by (rule set_prop_container)
  with cc' show ?thesis by blast
qed

lemma set_path_value:
  assumes "set_path p [k, k'] v = Inr p'" and "get_prop p k = Inr c" and "is_container c" and "is_container p"
  shows "get_path p' [k, k'] = Inr v"
proof -
  from assms(1,2) obtain c' where s: "set_prop c k' v = Inr c'" and u: "set_prop p k c' = Inr p'"
    by (auto split: sum.splits)
  from s assms(3) have "get_prop c' k' = Inr v" using set_prop_container by blast
  moreover from u assms(4) have "get_prop p' k = Inr c'" using set_prop_container by blast
  ultimately show ?thesis by simp
qed

lemma login_method_writes_value:
  assumes "apply_writes (login_method_writes now ident) p = Inr q"
  shows "get_path q [''login_method'', ''value''] = Inr (connection ident)"
proof -
  from assms obtain pa pb where
    w2: "set_path pa [''login_method'', ''signature'', ''publisher'', ''name''] (JStr PUBLISHER_NAME) = Inr pb" and
    w3: "set_path pb [''login_method'', ''value''] (connection ident) = Inr q"
    by (auto simp: login_method_writes_def split: sum.splits simp del: set_path.simps)
  from set_path_deep[OF w2] obtain c where
    c: "is_container c" "get_prop pb ''login_method'' = Inr c" "is_container pb" by blast
  from set_path_value[OF w3 c(2) c(1) c(3)] show ?thesis .
qed

lemma apply_writes_frame:
  "apply_writes ws p = Inr p' \<Longrightarrow> \<forall>w \<in> set ws. \<exists>k ks. fst w = k # ks \<and> k \<noteq> k0 \<Longrightarrow>
   get_prop p' k0 = get_prop p k0"
proof (induction ws arbitrary: p)
  case Nil
  then show ?case by simp
next
  case (Cons w ws)
  obtain path v where w: "w = (path, v)" by (cases w)
  from Cons.prems(2) have "\<exists>k ks. fst w = k # ks \<and> k \<noteq> k0" by simp
  with w obtain k ks where path: "path = k # ks" "k \<noteq> k0" by auto
  from Cons.prems(1) w have "(case set_path p path v of Inl e \<Rightarrow> Inl e | Inr p1 \<Rightarrow> apply_writes ws p1) = Inr p'"
    by simp
  then obtain p1 where s: "set_path p path v = Inr p1" and r: "apply_writes ws p1 = Inr p'"
    by (cases "set_path p path v") simp_all
  from Cons.prems(2) have "\<forall>w \<in> set ws. \<exists>k ks. fst w = k # ks \<and> k \<noteq> k0" by simp
  from Cons.IH[OF r this] have "get_prop p' k0 = get_prop p1 k0" .
  also have "get_prop p1 k0 = get_prop p k0"
    by (rule set_path_frame[OF s[unfolded path(1)] path(2)[symmetric]])
  finally show ?case .
qed

lemma provider_writes_frame:
  "apply_writes (github_id_v3_writes now ident) p = Inr p' \<Longrightarrow> get_prop p' ''login_method'' = get_prop p ''login_method''"
  "apply_writes (usernames_writes u) p = Inr p' \<Longrightarrow> get_prop p' ''login_method'' = get_prop p ''login_method''"
  "apply_writes (github_profileData_writes now ident) p = Inr p' \<Longrightarrow> get_prop p' ''login_method'' = get_prop p ''login_method''"
  "apply_writes (google_writes now u ident) p = Inr p' \<Longrightarrow> get_prop p' ''login_method'' = get_prop p ''login_method''"
  "apply_writes (firefox_writes now u ident) p = Inr p' \<Longrightarrow> get_prop p' ''login_method'' = get_prop p ''login_method''"
  "apply_writes (top_level_writes now u uid) p = Inr p' \<Longrightarrow> get_prop p' ''login_method'' = get_prop p ''login_method''"
  by (erule apply_writes_frame, simp add: github_id_v3_writes_def usernames_writes_def
        github_profileData_writes_def google_writes_def firefox_writes_def top_level_writes_def)+

lemma provider_mapping_frame:
  assumes "provider_mapping now u ident p1 = Inr p'"
  shows "get_prop p' ''login_method'' = get_prop p1 ''login_method''"
proof (cases "provider ident = JStr ''github''")
  case True
  with assms obtain p2 p3 where
    a: "apply_writes (github_id_v3_writes now ident) p1 = Inr p2" and
    b: "(if truthy (nickname u) then apply_writes (usernames_writes u) p2 else Inr p2) = Inr p3" and
    c: "(if truthy (profileData ident) then apply_writes (github_profileData_writes now ident) p3 else Inr p3) = Inr p'"
    by (auto simp: provider_mapping_def split: sum.splits)
  from a have "get_prop p2 ''login_method'' = get_prop p1 ''login_method''" by (rule provider_writes_frame)
  moreover from b have "get_prop p3 ''login_method'' = get_prop p2 ''login_method''"
    by (cases "truthy (nickname u)") (simp_all add: provider_writes_frame)
  moreover from c have "get_prop p' ''login_method'' = get_prop p3 ''login_method''"
    by (cases "truthy (profileData ident)") (simp_all add: provider_writes_frame)
  ultimately show ?thesis by simp
next
  case False
  show ?thesis
  proof (cases "provider ident = JStr ''google-oauth2''")
    case True
    with False assms have "apply_writes (google_writes now u ident) p1 = Inr p'"
      by (simp add: provider_mapping_def)
    then show ?thesis by (rule provider_writes_frame)
  next
    case g: False
    show ?thesis
    proof (cases "connection ident = JStr ''firefoxaccounts'' \<and> provider ident = JStr ''oauth2''")
      case True
      with False g assms have "apply_writes (firefox_writes now u ident) p1 = Inr p'"
        by (simp add: provider_mapping_def)
      then show ?thesis by (rule provider_writes_frame)
    next
      case f: False
      with False g assms show ?thesis by (auto simp: provider_mapping_def)
    qed
  qed
qed

lemma identity_step_frame:
  assumes "identity_step now u i ident p = Inr p'"
  shows "\<exists>p1. (if whitelisted (connection ident) \<and> i = 0
               then apply_writes (login_method_writes now ident) p else Inr p) = Inr p1 \<and>
              get_prop p' ''login_method'' = get_prop p1 ''login_method''"
proof (cases "whitelisted (connection ident)")
  case False
  with assms show ?thesis by (simp add: identity_step_def)
next
  case True
  with assms obtain p1 where
    a: "(if i = 0 then apply_writes (login_method_writes now ident) p else Inr p) = Inr p1" and
    b: "provider_mapping now u ident p1 = Inr p'"
    by (auto simp: identity_step_def split: sum.splits)
  from b have "get_prop p' ''login_method'' = get_prop p1 ''login_method''"
    by (rule provider_mapping_frame)
  with a True show ?thesis by auto
qed

lemma identities_loop_frame:
  "identities_loop now u i ids p = Inr p' \<Longrightarrow> 0 < i \<Longrightarrow>
   get_prop p' ''login_method'' = get_prop p ''login_method''"
proof (induction ids arbitrary: i p)
  case Nil
  then show ?case by simp
next
  case (Cons ident rest)
  from Cons.prems(1) obtain p1 where s: "identity_step now u i ident p = Inr p1"
    and r: "identities_loop now u (Suc i) rest p1 = Inr p'"
    by (auto split: sum.splits)
  from Cons.IH[OF r] have "get_prop p' ''login_method'' = get_prop p1 ''login_method''" by simp
  moreover from identity_step_frame[OF s] Cons.prems(2)
  have "get_prop p1 ''login_method'' = get_prop p ''login_method''" by auto
  ultimately show ?case by simp
qed

lemma populate_login_method:
  assumes "populate now u uid skeleton = Inr p"
  shows "case identities u of
           [] \<Rightarrow> get_prop p ''login_method'' = get_prop skeleton ''login_method''
         | ident # rest \<Rightarrow>
             if whitelisted (connection ident)
             then get_path p [''login_method'', ''value''] = Inr (connection ident)
             else get_prop p ''login_method'' = get_prop skeleton ''login_method''"
proof -
  from assms obtain p0 where t: "apply_writes (top_level_writes now u uid) skeleton = Inr p0"
    and l: "identities_loop now u 0 (identities u) p0 = Inr p"
    by (auto simp: populate_def split: sum.splits)
  from t have f0: "get_prop p0 ''login_method'' = get_prop skeleton ''login_method''"
    by (rule provider_writes_frame)
  show ?thesis
  proof (cases "identities u")
    case Nil
    with l f0 show ?thesis by simp
  next
    case (Cons ident rest)
    with l obtain p1 where s: "identity_step now u 0 ident p0 = Inr p1"
      and r: "identities_loop now u (Suc 0) rest p1 = Inr p"
      by (auto split: sum.splits)
    from identities_loop_frame[OF r] have f1: "get_prop p ''login_method'' = get_prop p1 ''login_method''"
      by simp
    from identity_step_frame[OF s] obtain q where
      q: "(if whitelisted (connection ident) then apply_writes (login_method_writes now ident) p0 else Inr p0) = Inr q"
      and f2: "get_prop p1 ''login_method'' = get_prop q ''login_method''" by auto
    show ?thesis
    proof (cases "whitelisted (connection ident)")
      case True
      with q have "get_path q [''login_method'', ''value''] = Inr (connection ident)"
        using login_method_writes_value by simp
      moreover from f1 f2 have "get_path p [''login_method'', ''value''] = get_path q [''login_method'', ''value'']"
        by simp
      ultimately show ?thesis using Cons True by simp
    next
      case False
      with q have "q = p0" by simp
      with f0 f1 f2 Cons False show ?thesis by simp
    qed
  qed
qed


text \<open>The signing leaves a string in \<^verbatim>\<open>value\<close> as it is.\<close>

lemma sign_with_keeps_string:
  assumes "sign_with jwt attr = Inr attr'" and "member attr ''value'' = JStr s"
  shows "member attr' ''value'' = JStr s"
proof (cases attr)
  case (JObj kvs)
  with assms show ?thesis
    by (auto simp: sign_with_def member_def update_conv' delete_conv' Let_def split: option.splits)
next
  case (JArr xs ps)
  with assms show ?thesis
    by (auto simp: sign_with_def member_def update_conv' delete_conv' Let_def split: option.splits)
qed (use assms in \<open>auto simp: member_def\<close>)

lemma signAttribute_keeps_string:
  assumes "signAttribute jwt attr = Inr attr'" and "member attr ''value'' = JStr s"
  shows "member attr' ''value'' = JStr s"
proof -
  from assms(1) have "attr' = attr \<or> sign_with jwt attr = Inr attr'"
    by (auto simp: signAttribute_def split: sum.splits if_splits)
  with assms(2) show ?thesis using sign_with_keeps_string by blast
qed

lemma signFields_lookup:
  "signFields jwt kvs = Inr kvs' \<Longrightarrow> map_of kvs k = Some v \<Longrightarrow>
   \<exists>v'. map_of kvs' k = Some v' \<and> signChild jwt v = Inr v'"
proof (induction kvs arbitrary: kvs')
  case Nil
  then show ?case by simp
next
  case (Cons kv kvs)
  obtain k0 v0 where kv: "kv = (k0, v0)" by (cases kv)
  from Cons.prems(1) kv obtain v0' rest where
    c: "signChild jwt v0 = Inr v0'" and r: "signFields jwt kvs = Inr rest" and out: "kvs' = (k0, v0') # rest"
    by (auto split: sum.splits)
  show ?case
  proof (cases "k0 = k")
    case True
    with Cons.prems(2) kv have "v0 = v" by simp
    with c out True show ?thesis by simp
  next
    case False
    with Cons.prems(2) kv have "map_of kvs k = Some v" by simp
    from Cons.IH[OF r this] False out show ?thesis by simp
  qed
qed

lemma signChild_keeps_string:
  assumes "signChild jwt attr = Inr attr'" and "member attr ''value'' = JStr s"
  shows "member attr' ''value'' = JStr s"
proof (cases "constructor_is_Object attr")
  case False
  with assms show ?thesis by (auto split: if_splits)
next
  case True
  then obtain kvs where a: "attr = JObj kvs" by (cases attr) auto
  show ?thesis
  proof (cases "truthy (member attr ''signature'')")
    case t: True
    with True assms(1) a have "signAttribute jwt attr = Inr attr'" by simp
    then show ?thesis using assms(2) by (rule signAttribute_keeps_string)
  next
    case f: False
    with True assms(1) a obtain kvs' where
      sf: "signFields jwt kvs = Inr kvs'" and r: "attr' = JObj kvs'"
      by (auto split: sum.splits)
    from assms(2) a have "map_of kvs ''value'' = Some (JStr s)"
      by (auto simp: member_def split: option.splits)
    from signFields_lookup[OF sf this] r show ?thesis by (auto simp: member_def)
  qed
qed

lemma signAll_keeps_string:
  assumes "signAll jwt root = Inr root'" and "get_path root [k, ''value''] = Inr (JStr s)"
  shows "get_path root' [k, ''value''] = Inr (JStr s)"
proof -
  have step: "\<exists>c'. map_of kvs' k = Some c' \<and> get_prop c' ''value'' = Inr (JStr s)"
    if sf: "signFields jwt kvs = Inr kvs'"
    and g: "get_path (JObj kvs) [k, ''value''] = Inr (JStr s)" for kvs kvs'
  proof -
    from g obtain c where c: "map_of kvs k = Some c" and v: "get_prop c ''value'' = Inr (JStr s)"
      by (auto split: option.splits sum.splits)
    from signFields_lookup[OF sf c] obtain c' where
      c': "map_of kvs' k = Some c'" and sc: "signChild jwt c = Inr c'" by blast
    from v have "member c ''value'' = JStr s" by (simp add: member_def)
    with sc have m: "member c' ''value'' = JStr s" by (rule signChild_keeps_string)
    then have "get_prop c' ''value'' = Inr (JStr s)"
      by (cases "get_prop c' ''value''") (auto simp: member_def)
    with c' show ?thesis by blast
  qed
  show ?thesis
  proof (cases root)
    case (JObj kvs)
    with assms(1) obtain kvs' where sf: "signFields jwt kvs = Inr kvs'" and r: "root' = JObj kvs'"
      by (auto split: sum.splits)
    from step[OF sf] assms(2) JObj r show ?thesis by auto
  next
    case (JArr xs ps)
    with assms(1) obtain xs' ps' where sf: "signFields jwt ps = Inr ps'" and r: "root' = JArr xs' ps'"
      by (auto split: sum.splits)
    from assms(2) JArr have "get_path (JObj ps) [k, ''value''] = Inr (JStr s)" by simp
    from step[OF sf this] r show ?thesis by auto
  qed (use assms in auto)
qed

lemma whitelisted_is_string: "whitelisted c \<Longrightarrow> \<exists>s. c = JStr s"
  by (cases c) auto

text \<open>
  C4, as amended. The loop writes \<^verbatim>\<open>login_method\<close> under the test \<^verbatim>\<open>i === 0\<close>, after the
  whitelist test: whenever the profile is built without an exception, a whitelisted
  entry at position 0 makes the \<^verbatim>\<open>login_method\<close> value of the built profile its
  connection name, and in every other case (no entry, or an entry at position 0 that is
  not whitelisted, whatever follows it) the populated profile keeps the \<^verbatim>\<open>login_method\<close>
  of the skeleton. An entry that is not whitelisted leaves the profile as it is.
\<close>

theorem login_method_from_position_0_only:
  assumes "\<not> isl (fst (createPersonProfile jwt now u uid (Inr skeleton)))"
  shows "(case identities u of
            [] \<Rightarrow> read_path (populate now u uid skeleton) [''login_method''] = get_path skeleton [''login_method'']
          | ident # rest \<Rightarrow>
              if whitelisted (connection ident)
              then read_path (fst (createPersonProfile jwt now u uid (Inr skeleton))) [''login_method'', ''value'']
                     = Inr (connection ident)
              else read_path (populate now u uid skeleton) [''login_method''] = get_path skeleton [''login_method''])
         \<and> (\<not> whitelisted (connection other) \<longrightarrow> identity_step now u i other q = Inr q)"
proof -
  from assms obtain p profile where p: "populate now u uid skeleton = Inr p"
    and sg: "signAll jwt p = Inr profile"
    and cp: "fst (createPersonProfile jwt now u uid (Inr skeleton)) = Inr profile"
    by (cases "populate now u uid skeleton"; cases "signAll jwt (projr (populate now u uid skeleton))")
       (auto simp: createPersonProfile_def)
  note lm = populate_login_method[OF p]
  have "?thesis" if "identities u = []"
    using that lm p by (simp add: read_path_def identity_step_def)
  moreover have "?thesis" if ids: "identities u = ident # rest" and w: "\<not> whitelisted (connection ident)"
    for ident rest
    using ids w lm p by (simp add: read_path_def identity_step_def)
  moreover have "?thesis" if ids: "identities u = ident # rest" and w: "whitelisted (connection ident)"
    for ident rest
  proof -
    from w obtain s where s: "connection ident = JStr s" using whitelisted_is_string by blast
    from lm ids w s have "get_path p [''login_method'', ''value''] = Inr (JStr s)" by simp
    with sg have "get_path profile [''login_method'', ''value''] = Inr (JStr s)"
      by (rule signAll_keeps_string)
    with ids w s cp show ?thesis by (simp add: read_path_def identity_step_def)
  qed
  ultimately show ?thesis by (cases "identities u") auto
qed

text \<open>
  C4 as stated fails: with the linked identities [Mozilla-LDAP, github] the first
  whitelisted entry is the GitHub one, at position 1. Its id is mapped, but the
  \<^verbatim>\<open>login_method\<close> of the built profile is still the \<^verbatim>\<open>null\<close> of the skeleton.
\<close>

theorem login_method_counterexample:
  "whitelisted (connection github_identity) \<and> \<not> whitelisted (connection ldap_identity) \<and>
   read_path (fst (createPersonProfile (jwt_sign example_env) (now_iso example_env) linked_user
                     (JStr ''uid'') (Inr example_skeleton))) [''login_method'', ''value''] = Inr JNull \<and>
   read_path (fst (createPersonProfile (jwt_sign example_env) (now_iso example_env) linked_user
                     (JStr ''uid'') (Inr example_skeleton))) [''identities'', ''github_id_v3'', ''value'']
     = Inr (JStr ''12345'')"
  by code_simp

text \<open>
  The example user, whose only identity is the GitHub one, and the user whose GitHub
  identity comes second.
\<close>

theorem login_method_from_position_0_only_witness:
  "\<not> isl (fst (createPersonProfile (jwt_sign example_env) (now_iso example_env) example_user
                   (JStr ''uid'') (Inr example_skeleton))) \<and>
   read_path (fst (createPersonProfile (jwt_sign example_env) (now_iso example_env) example_user
                     (JStr ''uid'') (Inr example_skeleton))) [''login_method'', ''value''] = Inr (JStr ''github'') \<and>
   \<not> isl (fst (createPersonProfile (jwt_sign example_env) (now_iso example_env) linked_user
                   (JStr ''uid'') (Inr example_skeleton))) \<and>
   read_path (populate (now_iso example_env) linked_user (JStr ''uid'') example_skeleton) [''login_method'']
     = get_path example_skeleton [''login_method''] \<and>
   \<not> whitelisted (connection ldap_identity) \<and>
   identity_step (now_iso example_env) example_user 1 ldap_identity example_skeleton = Inr example_skeleton"
proof -
  have h: "\<not> isl (fst (createPersonProfile (jwt_sign example_env) (now_iso example_env) example_user
                   (JStr ''uid'') (Inr example_skeleton)))"
    by code_simp
  have h': "\<not> isl (fst (createPersonProfile (jwt_sign example_env) (now_iso example_env) linked_user
                   (JStr ''uid'') (Inr example_skeleton)))"
    by code_simp
  have w: "\<not> whitelisted (connection ldap_identity)" by code_simp
  have ids: "identities example_user = [github_identity]" by (simp add: example_user_def)
  have ids': "identities linked_user = [ldap_identity, github_identity]"
    by (simp add: linked_user_def example_user_def)
  have g: "whitelisted (connection github_identity)" "connection github_identity = JStr ''github''"
    by (simp_all add: github_identity_def WHITELISTED_CONNECTIONS_def)
  from login_method_from_position_0_only[OF h, of ldap_identity 1 example_skeleton] h w ids g
  have 1: "read_path (fst (createPersonProfile (jwt_sign example_env) (now_iso example_env) example_user
                     (JStr ''uid'') (Inr example_skeleton))) [''login_method'', ''value''] = Inr (JStr ''github'')"
    "identity_step (now_iso example_env) example_user 1 ldap_identity example_skeleton = Inr example_skeleton"
    by simp_all
  from login_method_from_position_0_only[OF h', of ldap_identity 1 example_skeleton] w ids'
  have 2: "read_path (populate (now_iso example_env) linked_user (JStr ''uid'') example_skeleton) [''login_method'']
     = get_path example_skeleton [''login_method'']"
    by simp
  from h h' w 1 2 show ?thesis by blast
qed

text \<open>
  C5 fails on the code at the username slot. For the example user (nickname octocat,
  one GitHub identity) the builder writes \<^verbatim>\<open>usernames.values\<close> and stamps the publisher
  name, but \<^verbatim>\<open>usernames.metadata.last_modified\<close> stays the \<^verbatim>\<open>null\<close> of the skeleton: lines
  152 to 154 have no assignment to it, while the write of the GitHub id next to them
  (lines 146 to 149) stamps the current instant as every other write does.
\<close>

theorem usernames_write_does_not_stamp_last_modified:
  "read_path (fst (createPersonProfile (jwt_sign example_env) (now_iso example_env) example_user
                     (USER_ID_of example_user example_context) (Inr example_skeleton)))
     [''usernames'', ''values''] = Inr (JObj [(''HACK#GITHUB'', JStr ''octocat'')]) \<and>
   read_path (fst (createPersonProfile (jwt_sign example_env) (now_iso example_env) example_user
                     (USER_ID_of example_user example_context) (Inr example_skeleton)))
     [''usernames'', ''signature'', ''publisher'', ''name''] = Inr (JStr PUBLISHER_NAME) \<and>
   read_path (fst (createPersonProfile (jwt_sign example_env) (now_iso example_env) example_user
                     (USER_ID_of example_user example_context) (Inr example_skeleton)))
     [''usernames'', ''metadata'', ''last_modified''] = Inr JNull \<and>
   read_path (fst (createPersonProfile (jwt_sign example_env) (now_iso example_env) example_user
                     (USER_ID_of example_user example_context) (Inr example_skeleton)))
     [''identities'', ''github_id_v3'', ''metadata'', ''last_modified''] = Inr (JStr (now_iso example_env))"
  by code_simp

section \<open>The attribute signer\<close>

lemma signChild_falsy: "\<not> truthy v \<Longrightarrow> signChild jwt v = Inr r \<Longrightarrow> r = v"
  by (cases v) (auto split: if_splits)

lemma signFields_keeps_falsy:
  "signFields jwt kvs = Inr kvs' \<Longrightarrow>
   \<not> truthy (case map_of kvs k of None \<Rightarrow> JUndefined | Some v \<Rightarrow> v) \<Longrightarrow>
   \<not> truthy (case map_of kvs' k of None \<Rightarrow> JUndefined | Some v \<Rightarrow> v)"
proof (induction kvs arbitrary: kvs')
  case Nil
  then show ?case by simp
next
  case (Cons kv kvs)
  obtain k0 v0 where kv: "kv = (k0, v0)" by (cases kv)
  from Cons.prems(1) kv obtain v0' rest where
    c: "signChild jwt v0 = Inr v0'" and r: "signFields jwt kvs = Inr rest" and out: "kvs' = (k0, v0') # rest"
    by (auto split: sum.splits)
  show ?case
  proof (cases "k0 = k")
    case True
    with Cons.prems(2) kv have "\<not> truthy v0" by simp
    then have "v0' = v0" using c by (rule signChild_falsy)
    with True out Cons.prems(2) kv show ?thesis by simp
  next
    case False
    with Cons.prems(2) kv have "\<not> truthy (case map_of kvs k of None \<Rightarrow> JUndefined | Some v \<Rightarrow> v)" by simp
    from Cons.IH[OF r this] False out show ?thesis by simp
  qed
qed

lemma signAll_keeps_lacking:
  assumes "constructor_is_Object attr" "lacks_signature attr" "signAll jwt attr = Inr r"
  shows "lacks_signature r"
proof -
  from assms(1) obtain kvs where a: "attr = JObj kvs" by (cases attr) auto
  with assms(3) obtain kvs' where f: "signFields jwt kvs = Inr kvs'" and r: "r = JObj kvs'"
    by (auto split: sum.splits)
  from assms(2) a have "\<not> truthy (case map_of kvs ''signature'' of None \<Rightarrow> JUndefined | Some v \<Rightarrow> v)"
    by (simp add: lacks_signature_def member_def)
  from signFields_keeps_falsy[OF f this] r show ?thesis
    by (simp add: lacks_signature_def member_def)
qed

text \<open>The traversal visits every member once, in order, and keeps the names.\<close>

lemma signFields_members:
  "signFields jwt kvs = Inr kvs' \<Longrightarrow>
   map fst kvs' = map fst kvs \<and>
   (\<forall>i < length kvs. signChild jwt (snd (kvs ! i)) = Inr (snd (kvs' ! i)))"
proof (induction kvs arbitrary: kvs')
  case Nil
  then show ?case by simp
next
  case (Cons kv kvs)
  obtain k0 v0 where kv: "kv = (k0, v0)" by (cases kv)
  from Cons.prems kv obtain v0' rest where
    c: "signChild jwt v0 = Inr v0'" and r: "signFields jwt kvs = Inr rest" and out: "kvs' = (k0, v0') # rest"
    by (auto split: sum.splits)
  from Cons.IH[OF r] have ih: "map fst rest = map fst kvs"
    "\<And>i. i < length kvs \<Longrightarrow> signChild jwt (snd (kvs ! i)) = Inr (snd (rest ! i))"
    by (simp_all del: signChild.simps)
  have "signChild jwt (snd ((kv # kvs) ! i)) = Inr (snd (kvs' ! i))" if "i < length (kv # kvs)" for i
  proof (cases i)
    case 0
    with kv c out show ?thesis by (simp del: signChild.simps)
  next
    case (Suc j)
    with that ih(2)[of j] out show ?thesis by (simp del: signChild.simps)
  qed
  with ih(1) kv out show ?case by (simp del: signChild.simps)
qed

lemma signFields_throws:
  "isl (signFields jwt kvs) \<longleftrightarrow> (\<exists>kv \<in> set kvs. isl (signChild jwt (snd kv)))"
proof (induction kvs)
  case Nil
  show ?case by simp
next
  case (Cons kv kvs)
  obtain k0 v0 where kv: "kv = (k0, v0)" by (cases kv)
  show ?case
  proof (cases "signChild jwt v0")
    case (Inl e)
    with kv show ?thesis by (simp del: signChild.simps)
  next
    case (Inr v0')
    with kv Cons.IH show ?thesis
      by (cases "signFields jwt kvs") (simp_all del: signChild.simps)
  qed
qed

text \<open>What the guard of \<^verbatim>\<open>signAttribute\<close> decides on an object with a truthy signature.\<close>

lemma signAttribute_guard:
  assumes "constructor_is_Object attr" and "truthy (member attr ''signature'')"
  shows "signAttribute jwt attr =
           (if nullish (member (member attr ''signature'') ''publisher'') then Inl TypeError
            else if spec_signable attr then sign_with jwt attr else Inr attr)"
proof -
  from assms(1) obtain kvs where a: "attr = JObj kvs" by (cases attr) auto
  define sig where "sig = member attr ''signature''"
  define pub where "pub = member sig ''publisher''"
  from assms(2) have s: "get_prop attr ''signature'' = Inr sig" "truthy sig"
    using a by (simp_all add: sig_def member_def)
  from s(2) have p: "get_prop sig ''publisher'' = Inr pub"
    by (cases sig) (simp_all add: pub_def member_def)
  show ?thesis
  proof (cases "nullish pub")
    case True
    then have "get_prop pub ''name'' = Inl TypeError" by (cases pub) simp_all
    with s p True show ?thesis by (simp add: signAttribute_def sig_def[symmetric] pub_def[symmetric])
  next
    case False
    then obtain nm where n: "get_prop pub ''name'' = Inr nm" by (cases pub) simp_all
    have v: "get_prop attr ''value'' = Inr (member attr ''value'')"
      "get_prop attr ''values'' = Inr (member attr ''values'')"
      using a by (simp_all add: member_def)
    have "spec_signable attr \<longleftrightarrow>
        nm = JStr PUBLISHER_NAME \<and> member attr ''value'' \<noteq> JNull \<and> member attr ''values'' \<noteq> JNull"
      using s p n by (simp add: spec_signable_def)
    with s p n v False show ?thesis
      by (simp add: signAttribute_def sig_def[symmetric] pub_def[symmetric])
  qed
qed

text \<open>
  C6, as amended. \<^verbatim>\<open>signAll\<close> tells the children apart by the tests of lines 249 and 251:
  \<^verbatim>\<open>attr.constructor === Object\<close> and the truthiness of \<^verbatim>\<open>attr.signature\<close>. Whenever it
  returns on a profile tree, the tree has the same named children in the same order, and
  of each of them: one whose constructor is \<^verbatim>\<open>Object\<close> and whose signature is truthy is
  replaced by what the signing proper returns if it is signable in the words of the
  specification (publisher name equal to the publisher identity, neither \<^verbatim>\<open>value\<close> nor
  \<^verbatim>\<open>values\<close> equal to \<^verbatim>\<open>null\<close>), and is left as it is if not; one whose constructor is
  \<^verbatim>\<open>Object\<close> and whose signature is absent or falsy is replaced by what \<^verbatim>\<open>signAll\<close> returns
  on it, which is again without a signature (the container is not signed); any other
  child is left as it is. And \<^verbatim>\<open>signAll\<close> throws exactly when one of the named children is
  \<^verbatim>\<open>null\<close> or \<^verbatim>\<open>undefined\<close>, or has constructor \<^verbatim>\<open>Object\<close> and a truthy signature with no
  publisher to read the name of, or is signable and the signing proper throws, or is a
  container on which \<^verbatim>\<open>signAll\<close> throws.
\<close>

theorem signAll_signs_plain_object_children:
  "(signAll jwt (JObj kvs) = Inr tree' \<longrightarrow>
      (\<exists>kvs'. tree' = JObj kvs' \<and> map fst kvs' = map fst kvs \<and>
         (\<forall>i attr attr'. i < length kvs \<and> attr = snd (kvs ! i) \<and> attr' = snd (kvs' ! i) \<longrightarrow>
            (constructor_is_Object attr \<and> truthy (member attr ''signature'') \<and> spec_signable attr
               \<longrightarrow> sign_with jwt attr = Inr attr') \<and>
            (constructor_is_Object attr \<and> truthy (member attr ''signature'') \<and> \<not> spec_signable attr
               \<longrightarrow> attr' = attr) \<and>
            (constructor_is_Object attr \<and> \<not> truthy (member attr ''signature'')
               \<longrightarrow> signAll jwt attr = Inr attr' \<and> lacks_signature attr') \<and>
            (\<not> constructor_is_Object attr \<longrightarrow> attr' = attr)))) \<and>
   (isl (signAll jwt (JObj kvs)) \<longleftrightarrow>
      (\<exists>kv \<in> set kvs.
         nullish (snd kv) \<or>
         (constructor_is_Object (snd kv) \<and> truthy (member (snd kv) ''signature'') \<and>
            (nullish (member (member (snd kv) ''signature'') ''publisher'') \<or>
             spec_signable (snd kv) \<and> isl (sign_with jwt (snd kv)))) \<or>
         (constructor_is_Object (snd kv) \<and> \<not> truthy (member (snd kv) ''signature'') \<and>
            isl (signAll jwt (snd kv)))))"
proof -
  have child: "(constructor_is_Object attr \<and> truthy (member attr ''signature'') \<and> spec_signable attr
               \<longrightarrow> sign_with jwt attr = Inr attr') \<and>
            (constructor_is_Object attr \<and> truthy (member attr ''signature'') \<and> \<not> spec_signable attr
               \<longrightarrow> attr' = attr) \<and>
            (constructor_is_Object attr \<and> \<not> truthy (member attr ''signature'')
               \<longrightarrow> signAll jwt attr = Inr attr' \<and> lacks_signature attr') \<and>
            (\<not> constructor_is_Object attr \<longrightarrow> attr' = attr)"
    if c: "signChild jwt attr = Inr attr'" for attr attr'
  proof (cases "constructor_is_Object attr")
    case False
    with c show ?thesis by (auto split: if_splits)
  next
    case plain: True
    then have nn: "\<not> nullish attr" by (cases attr) auto
    show ?thesis
    proof (cases "truthy (member attr ''signature'')")
      case True
      with plain nn c have "signAttribute jwt attr = Inr attr'" by simp
      with signAttribute_guard[OF plain True, of jwt] plain True show ?thesis
        by (auto split: if_splits)
    next
      case False
      with plain nn c have r: "signAll jwt attr = Inr attr'" by simp
      from False have "lacks_signature attr" by (simp add: lacks_signature_def)
      from signAll_keeps_lacking[OF plain this r] r plain False show ?thesis by simp
    qed
  qed
  have returns: "\<exists>kvs'. tree' = JObj kvs' \<and> map fst kvs' = map fst kvs \<and>
         (\<forall>i attr attr'. i < length kvs \<and> attr = snd (kvs ! i) \<and> attr' = snd (kvs' ! i) \<longrightarrow>
            (constructor_is_Object attr \<and> truthy (member attr ''signature'') \<and> spec_signable attr
               \<longrightarrow> sign_with jwt attr = Inr attr') \<and>
            (constructor_is_Object attr \<and> truthy (member attr ''signature'') \<and> \<not> spec_signable attr
               \<longrightarrow> attr' = attr) \<and>
            (constructor_is_Object attr \<and> \<not> truthy (member attr ''signature'')
               \<longrightarrow> signAll jwt attr = Inr attr' \<and> lacks_signature attr') \<and>
            (\<not> constructor_is_Object attr \<longrightarrow> attr' = attr))"
    if r: "signAll jwt (JObj kvs) = Inr tree'"
  proof -
    from r obtain kvs' where f: "signFields jwt kvs = Inr kvs'" and t: "tree' = JObj kvs'"
      by (auto split: sum.splits)
    from signFields_members[OF f] have k: "map fst kvs' = map fst kvs"
      and m: "\<And>i. i < length kvs \<Longrightarrow> signChild jwt (snd (kvs ! i)) = Inr (snd (kvs' ! i))"
      by (simp_all del: signChild.simps)
    from t k child[OF m] show ?thesis by blast
  qed
  have throwing: "isl (signChild jwt attr) \<longleftrightarrow>
      nullish attr \<or>
      (constructor_is_Object attr \<and> truthy (member attr ''signature'') \<and>
         (nullish (member (member attr ''signature'') ''publisher'') \<or>
          spec_signable attr \<and> isl (sign_with jwt attr))) \<or>
      (constructor_is_Object attr \<and> \<not> truthy (member attr ''signature'') \<and> isl (signAll jwt attr))"
    for attr
  proof (cases "constructor_is_Object attr")
    case False
    then show ?thesis by simp
  next
    case plain: True
    then have nn: "\<not> nullish attr" by (cases attr) auto
    show ?thesis
    proof (cases "truthy (member attr ''signature'')")
      case True
      with plain nn signAttribute_guard[OF plain True, of jwt] show ?thesis by simp
    next
      case False
      with plain nn show ?thesis by simp
    qed
  qed
  have "isl (signAll jwt (JObj kvs)) \<longleftrightarrow> isl (signFields jwt kvs)"
    by (cases "signFields jwt kvs") simp_all
  with signFields_throws[of jwt kvs]
  have "isl (signAll jwt (JObj kvs)) \<longleftrightarrow> (\<exists>kv \<in> set kvs. isl (signChild jwt (snd kv)))"
    by (simp del: signChild.simps)
  with throwing
  have throws: "isl (signAll jwt (JObj kvs)) \<longleftrightarrow>
      (\<exists>kv \<in> set kvs.
         nullish (snd kv) \<or>
         (constructor_is_Object (snd kv) \<and> truthy (member (snd kv) ''signature'') \<and>
            (nullish (member (member (snd kv) ''signature'') ''publisher'') \<or>
             spec_signable (snd kv) \<and> isl (sign_with jwt (snd kv)))) \<or>
         (constructor_is_Object (snd kv) \<and> \<not> truthy (member (snd kv) ''signature'') \<and>
            isl (signAll jwt (snd kv))))"
    by (simp del: signChild.simps)
  from returns throws show ?thesis by blast
qed

text \<open>
  C6 as stated fails on a child that has the three properties and a member of its own
  named \<^verbatim>\<open>constructor\<close>: \<^verbatim>\<open>attr.constructor === Object\<close> is false of it and \<^verbatim>\<open>signAll\<close>
  leaves it unsigned. It fails too on a child whose \<^verbatim>\<open>signature\<close> member is a string:
  the child has no signature sub-record, yet it is not recursed into; \<^verbatim>\<open>signAttribute\<close>
  reads the publisher name of the string and throws.
\<close>

theorem signAll_signs_counterexample:
  "carries_signature_record shadowed_attribute \<and>
   spec_signable shadowed_attribute \<and>
   signAll (jwt_sign example_env) (JObj [(''primary_email'', shadowed_attribute)])
     = Inr (JObj [(''primary_email'', shadowed_attribute)]) \<and>
   sign_with (jwt_sign example_env) shadowed_attribute \<noteq> Inr shadowed_attribute \<and>
   \<not> carries_signature_record labelled_container \<and>
   signAll (jwt_sign example_env) (JObj [(''identities'', labelled_container)]) = Inl TypeError"
  by (simp add: shadowed_attribute_def labelled_container_def carries_signature_record_def
        spec_signable_def member_def PUBLISHER_NAME_def signAttribute_def sign_with_def
        new_signature_def example_env_def)

text \<open>
  The small profile tree: the published attribute at the top is signed, the container is
  recursed into and the published attribute in it signed, the null attribute and the
  string are left as they are. And a tree with a \<^verbatim>\<open>null\<close> member makes \<^verbatim>\<open>signAll\<close> throw.
\<close>

theorem signAll_signs_plain_object_children_witness:
  "signAll (jwt_sign example_env) example_tree = Inr signed_tree \<and>
   constructor_is_Object (published_attribute (JStr ''octocat@example.com'')) \<and>
   truthy (member (published_attribute (JStr ''octocat@example.com'')) ''signature'') \<and>
   spec_signable (published_attribute (JStr ''octocat@example.com'')) \<and>
   sign_with (jwt_sign example_env) (published_attribute (JStr ''octocat@example.com''))
     = Inr (signed_attribute (JStr ''octocat@example.com'')) \<and>
   constructor_is_Object (JObj [(''github_id_v3'', published_attribute (JStr ''12345''))]) \<and>
   \<not> truthy (member (JObj [(''github_id_v3'', published_attribute (JStr ''12345''))]) ''signature'') \<and>
   signAll (jwt_sign example_env) (JObj [(''github_id_v3'', published_attribute (JStr ''12345''))])
     = Inr (JObj [(''github_id_v3'', signed_attribute (JStr ''12345''))]) \<and>
   lacks_signature (JObj [(''github_id_v3'', signed_attribute (JStr ''12345''))]) \<and>
   constructor_is_Object null_attribute \<and> truthy (member null_attribute ''signature'') \<and>
   \<not> spec_signable null_attribute \<and>
   \<not> constructor_is_Object (JStr ''v2'') \<and>
   isl (signAll (jwt_sign example_env) (JObj [(''access_information'', JNull)]))"
proof -
  define J where "J = jwt_sign example_env"
  define L where "L =
     [(''primary_email'', published_attribute (JStr ''octocat@example.com'')),
      (''identities'', JObj [(''github_id_v3'', published_attribute (JStr ''12345''))]),
      (''user_id'', null_attribute),
      (''schema'', JStr ''v2'')]"
  define L' where "L' =
     [(''primary_email'', signed_attribute (JStr ''octocat@example.com'')),
      (''identities'', JObj [(''github_id_v3'', signed_attribute (JStr ''12345''))]),
      (''user_id'', null_attribute),
      (''schema'', JStr ''v2'')]"
  have tree: "example_tree = JObj L" "signed_tree = JObj L'"
    by (simp_all add: example_tree_def signed_tree_def L_def L'_def)
  have h: "signAll J (JObj L) = Inr signed_tree"
    unfolding J_def L_def by code_simp
  have p0: "constructor_is_Object (published_attribute (JStr ''octocat@example.com''))"
    "truthy (member (published_attribute (JStr ''octocat@example.com'')) ''signature'')"
    "spec_signable (published_attribute (JStr ''octocat@example.com''))"
    by (simp_all add: published_attribute_def spec_signable_def member_def PUBLISHER_NAME_def)
  have p1: "constructor_is_Object (JObj [(''github_id_v3'', published_attribute (JStr ''12345''))])"
    "\<not> truthy (member (JObj [(''github_id_v3'', published_attribute (JStr ''12345''))]) ''signature'')"
    by (simp_all add: member_def)
  have p2: "constructor_is_Object null_attribute" "truthy (member null_attribute ''signature'')"
    "\<not> spec_signable null_attribute"
    by (simp_all add: null_attribute_def null_signature_def spec_signable_def member_def)
  have p3: "\<not> constructor_is_Object (JStr ''v2'')" by simp
  note T = signAll_signs_plain_object_children
  from T[of J L signed_tree] h obtain kvs' where
    t: "signed_tree = JObj kvs'" and
    a: "\<And>i attr attr'. i < length L \<and> attr = snd (L ! i) \<and> attr' = snd (kvs' ! i) \<Longrightarrow>
            (constructor_is_Object attr \<and> truthy (member attr ''signature'') \<and> spec_signable attr
               \<longrightarrow> sign_with J attr = Inr attr') \<and>
            (constructor_is_Object attr \<and> truthy (member attr ''signature'') \<and> \<not> spec_signable attr
               \<longrightarrow> attr' = attr) \<and>
            (constructor_is_Object attr \<and> \<not> truthy (member attr ''signature'')
               \<longrightarrow> signAll J attr = Inr attr' \<and> lacks_signature attr') \<and>
            (\<not> constructor_is_Object attr \<longrightarrow> attr' = attr)"
    by blast
  have k: "kvs' = L'" using t unfolding tree(2) by simp
  from a[of 0 "snd (L ! 0)" "snd (kvs' ! 0)"] p0
  have c0: "sign_with J (published_attribute (JStr ''octocat@example.com''))
     = Inr (signed_attribute (JStr ''octocat@example.com''))"
    by (simp add: k L_def L'_def)
  from a[of 1 "snd (L ! 1)" "snd (kvs' ! 1)"] p1
  have c1: "signAll J (JObj [(''github_id_v3'', published_attribute (JStr ''12345''))])
     = Inr (JObj [(''github_id_v3'', signed_attribute (JStr ''12345''))]) \<and>
     lacks_signature (JObj [(''github_id_v3'', signed_attribute (JStr ''12345''))])"
    by (simp add: k L_def L'_def)
  from T[of J "[(''access_information'', JNull)]"]
  have c4: "isl (signAll J (JObj [(''access_information'', JNull)]))" by simp
  from h tree p0 p1 p2 p3 c0 c1 c4 show ?thesis unfolding J_def by simp
qed

text \<open>
  C7 fails on the code at the number 0. The guard of the coercion is
  \<^verbatim>\<open>attr.value && typeof attr.value === "number"\<close>, and 0 is falsy: an attribute of value 0
  published by this system is signed with the number 0 left in place, while 42 becomes
  the string \<^verbatim>\<open>"42"\<close>.
\<close>

theorem zero_is_signed_as_a_number:
  "signAttribute (jwt_sign example_env) (published_attribute (JNum 0)) = Inr (signed_attribute (JNum 0)) \<and>
   signAttribute (jwt_sign example_env) (published_attribute (JNum 42)) = Inr (signed_attribute (JStr ''42''))"
  by (simp add: signAttribute_def sign_with_def published_attribute_def signed_attribute_def
        example_env_def PUBLISHER_NAME_def number_toString_def digit_char_def)

section \<open>The orchestration\<close>

text \<open>What each step of the chain can do to the world.\<close>

lemma getBearerToken_events:
  "getBearerToken cfg g n1 n2 r = (res, g', evs) \<Longrightarrow>
   evs = [] \<or> evs = [TokenRequest (personapi_oauth_url cfg)]"
  by (auto simp: getBearerToken_def split: if_splits http_result.splits sum.splits)

lemma getPersonProfile_events:
  assumes "getPersonProfile E cfg g = (res, g', evs)"
  shows "\<exists>tok. (tok = [] \<or> tok = [TokenRequest (personapi_oauth_url cfg)]) \<and>
           (evs = tok \<and> isl res \<or>
            (\<exists>bearer. evs = tok @ [StoreGet bearer] \<and>
               (case store_response E of Rejected \<Rightarrow> isl res | Body profile \<Rightarrow> res = Inr profile)))"
proof -
  obtain r1 g1 ev1 where t: "getBearerToken cfg g (now_at_check E InGetPersonProfile) (now_at_store E InGetPersonProfile)
      (token_response E InGetPersonProfile) = (r1, g1, ev1)"
    by (cases "getBearerToken cfg g (now_at_check E InGetPersonProfile) (now_at_store E InGetPersonProfile)
      (token_response E InGetPersonProfile)")
  from getBearerToken_events[OF t] assms show ?thesis
    by (cases r1; cases "store_response E") (auto simp: getPersonProfile_def t)
qed

lemma postProfile_events:
  assumes "postProfile E cfg g profile = (res, g', evs)"
  shows "\<exists>tok. (tok = [] \<or> tok = [TokenRequest (personapi_oauth_url cfg)]) \<and>
           (evs = tok \<and> isl res \<or>
            (\<exists>bearer. evs = tok @ [SubmitPost bearer profile] \<and>
               (case submit_response E of Rejected \<Rightarrow> isl res | Body response \<Rightarrow> res = Inr response)))"
proof -
  obtain r1 g1 ev1 where t: "getBearerToken cfg g (now_at_check E InPostProfile) (now_at_store E InPostProfile)
      (token_response E InPostProfile) = (r1, g1, ev1)"
    by (cases "getBearerToken cfg g (now_at_check E InPostProfile) (now_at_store E InPostProfile)
      (token_response E InPostProfile)")
  from getBearerToken_events[OF t] assms show ?thesis
    by (cases r1; cases "submit_response E") (auto simp: postProfile_def t)
qed

lemma createPersonProfile_events:
  assumes "createPersonProfile jwt now u uid parsed = (res, evs)"
  shows "evs = [BuildProfile] \<and> isl res \<or> evs = [BuildProfile, SignProfile]"
proof (cases parsed)
  case (Inl e)
  with assms show ?thesis by (auto simp: createPersonProfile_def)
next
  case (Inr skeleton)
  show ?thesis
  proof (cases "populate now u uid skeleton")
    case (Inl e)
    with Inr assms have "res = Inl e" "evs = [BuildProfile]"
      by (simp_all add: createPersonProfile_def)
    then show ?thesis by simp
  next
    case p: (Inr profile)
    with Inr assms have "evs = [BuildProfile, SignProfile]"
      by (simp add: createPersonProfile_def)
    then show ?thesis by simp
  qed
qed

lemma existence_handler_events:
  assumes "existence_handler E u cfg md uid profile = (res, md', evs, later)"
  shows "(evs = [] \<and> later = [] \<and> isl res \<and> md' = md \<and> isl (object_keys_length profile))
       \<or> (\<exists>n. object_keys_length profile = Inr n \<and> n \<noteq> 0 \<and> isl res \<and>
              md' = AList.update ''existsInCIS'' (JBool True) md \<and>
              evs = [UpdateUserMetadata uid md'] \<and> later = [UpdateSettled (update_fulfilled E)])
       \<or> (object_keys_length profile = Inr 0 \<and> md' = md \<and> later = [] \<and>
            (res, evs) = createPersonProfile (jwt_sign E) (now_iso E) u uid
                           (parse_null_profile E (changeapi_null_profile cfg)))"
proof (cases "object_keys_length profile")
  case (Inl e)
  with assms show ?thesis by (auto simp: existence_handler_def)
next
  case (Inr n)
  show ?thesis
  proof (cases "n = 0")
    case True
    with Inr assms show ?thesis
      by (cases "createPersonProfile (jwt_sign E) (now_iso E) u uid
                   (parse_null_profile E (changeapi_null_profile cfg))")
         (auto simp: existence_handler_def)
  next
    case False
    with Inr assms show ?thesis
      by (auto simp: existence_handler_def setExistsInCIS_def Let_def)
  qed
qed

lemma response_handler_events:
  assumes "response_handler E md uid response = (res, md', evs, later)"
  shows "(evs = [] \<and> later = [] \<and> isl res \<and> md' = md \<and>
          \<not> (constructor_is_Object response \<and> member response ''status_code'' = JNum 200))
       \<or> (constructor_is_Object response \<and> member response ''status_code'' = JNum 200 \<and> \<not> isl res \<and>
            md' = AList.update ''existsInCIS'' (JBool True) md \<and>
            evs = [UpdateUserMetadata uid md', Callback None] \<and>
            later = [UpdateSettled (update_fulfilled E)])"
  using assms
  by (cases response) (auto simp: response_handler_def setExistsInCIS_def Let_def split: if_splits)

text \<open>The ways through the chain, and through the rule.\<close>

lemma provision_cases:
  obtains
    (no_profile) e g1 ev1 where
      "getPersonProfile E cfg g = (Inl e, g1, ev1)"
      "provision E u cfg g md uid = caught ev1 [] g1 md"
  | (handler_threw) profile g1 ev1 e md1 ev2 later where
      "getPersonProfile E cfg g = (Inr profile, g1, ev1)"
      "existence_handler E u cfg md uid profile = (Inl e, md1, ev2, later)"
      "provision E u cfg g md uid = caught (ev1 @ ev2) later g1 md1"
  | (post_failed) profile g1 ev1 profile' md1 ev2 later e g2 ev3 where
      "getPersonProfile E cfg g = (Inr profile, g1, ev1)"
      "existence_handler E u cfg md uid profile = (Inr profile', md1, ev2, later)"
      "postProfile E cfg g1 profile' = (Inl e, g2, ev3)"
      "provision E u cfg g md uid = caught (ev1 @ ev2 @ ev3) later g2 md1"
  | (refused) profile g1 ev1 profile' md1 ev2 later response g2 ev3 e md2 ev4 later' where
      "getPersonProfile E cfg g = (Inr profile, g1, ev1)"
      "existence_handler E u cfg md uid profile = (Inr profile', md1, ev2, later)"
      "postProfile E cfg g1 profile' = (Inr response, g2, ev3)"
      "response_handler E md1 uid response = (Inl e, md2, ev4, later')"
      "provision E u cfg g md uid = caught (ev1 @ ev2 @ ev3 @ ev4) (later @ later') g2 md2"
  | (created) profile g1 ev1 profile' md1 ev2 later response g2 ev3 finished md2 ev4 later' where
      "getPersonProfile E cfg g = (Inr profile, g1, ev1)"
      "existence_handler E u cfg md uid profile = (Inr profile', md1, ev2, later)"
      "postProfile E cfg g1 profile' = (Inr response, g2, ev3)"
      "response_handler E md1 uid response = (Inr finished, md2, ev4, later')"
      "provision E u cfg g md uid =
         \<lparr>events = ev1 @ ev2 @ ev3 @ ev4 @ later @ later', raised = None,
          globals_after = g2, metadata_after = md2\<rparr>"
proof -
  obtain r1 g1 ev1 where s1: "getPersonProfile E cfg g = (r1, g1, ev1)"
    by (cases "getPersonProfile E cfg g")
  show thesis
  proof (cases r1)
    case (Inl e)
    with s1 show thesis by (intro no_profile[of e g1 ev1]) (simp_all add: provision_def)
  next
    case p: (Inr profile)
    obtain r2 md1 ev2 later where s2: "existence_handler E u cfg md uid profile = (r2, md1, ev2, later)"
      by (cases "existence_handler E u cfg md uid profile")
    show thesis
    proof (cases r2)
      case (Inl e)
      with s1 p s2 show thesis
        by (intro handler_threw[of profile g1 ev1 e md1 ev2 later]) (simp_all add: provision_def)
    next
      case b: (Inr profile')
      obtain r3 g2 ev3 where s3: "postProfile E cfg g1 profile' = (r3, g2, ev3)"
        by (cases "postProfile E cfg g1 profile'")
      show thesis
      proof (cases r3)
        case (Inl e)
        with s1 p s2 b s3 show thesis
          by (intro post_failed[of profile g1 ev1 profile' md1 ev2 later e g2 ev3])
             (simp_all add: provision_def)
      next
        case r: (Inr response)
        obtain r4 md2 ev4 later' where s4: "response_handler E md1 uid response = (r4, md2, ev4, later')"
          by (cases "response_handler E md1 uid response")
        show thesis
        proof (cases r4)
          case (Inl e)
          with s1 p s2 b s3 r s4 show thesis
            by (intro refused[of profile g1 ev1 profile' md1 ev2 later response g2 ev3 e md2 ev4 later'])
               (simp_all add: provision_def)
        next
          case (Inr finished)
          with s1 p s2 b s3 r s4 show thesis
            by (intro created[of profile g1 ev1 profile' md1 ev2 later response g2 ev3 finished md2 ev4 later'])
               (simp_all add: provision_def)
        qed
      qed
    qed
  qed
qed

lemma rule_cases:
  obtains
    (thrown) "personapi_audience cfg = None"
      "raised (rule E u c cfg g) = Some TypeError" "events (rule E u c cfg g) = []"
  | (stopped) "rule E u c cfg g = caught [] [] g (METADATA_of u c)"
  | (chain) "rule E u c cfg g = provision E u cfg g (METADATA_of u c) (USER_ID_of u c)"
proof (cases "missing (changeapi_auth0_private_key cfg) \<or> missing (changeapi_null_profile cfg) \<or>
    missing (changeapi_url cfg) \<or> missing (personapi_client_id cfg) \<or>
    missing (personapi_client_secret cfg) \<or> missing (personapi_url cfg)")
  case True
  then have "rule E u c cfg g = caught [] [] g (METADATA_of u c)" by (auto simp: rule_def)
  then show thesis by (rule stopped)
next
  case False
  then obtain url where url: "personapi_url cfg = Some url" by (cases "personapi_url cfg") auto
  show thesis
  proof (cases "personapi_audience cfg")
    case None
    with False show thesis by (intro thrown) (simp_all add: rule_def)
  next
    case (Some aud)
    with False url have "rule E u c cfg g = caught [] [] g (METADATA_of u c) \<or>
        rule E u c cfg g = provision E u cfg g (METADATA_of u c) (USER_ID_of u c)"
      by (simp add: rule_def)
    then show thesis using stopped chain by blast
  qed
qed

lemma caught_run [simp]:
  "events (caught evs later g md) = evs @ [Callback None] @ later"
  "raised (caught evs later g md) = None"
  "globals_after (caught evs later g md) = g"
  "metadata_after (caught evs later g md) = md"
  by (simp_all add: caught_def)

lemma getPersonProfile_quiet:
  assumes "getPersonProfile E cfg g = (res, g', evs)"
  shows "filter is_callback evs = []" "filter is_submission evs = []"
    "BuildProfile \<notin> set evs" "SignProfile \<notin> set evs"
  using getPersonProfile_events[OF assms] by auto

lemma postProfile_quiet:
  assumes "postProfile E cfg g profile = (res, g', evs)"
  shows "filter is_callback evs = []"
  using postProfile_events[OF assms] by auto

lemma existence_handler_quiet:
  assumes "existence_handler E u cfg md uid profile = (res, md', evs, later)"
  shows "filter is_callback evs = []" "filter is_callback later = []"
    "filter is_submission evs = []" "filter is_submission later = []"
proof -
  from existence_handler_events[OF assms] consider
      (threw) "evs = []" "later = []"
    | (exists) "evs = [UpdateUserMetadata uid md']" "later = [UpdateSettled (update_fulfilled E)]"
    | (built) "later = []" "createPersonProfile (jwt_sign E) (now_iso E) u uid
                 (parse_null_profile E (changeapi_null_profile cfg)) = (res, evs)"
    by (elim disjE exE conjE) simp_all
  then have "(filter is_callback evs = [] \<and> filter is_callback later = []) \<and>
             (filter is_submission evs = [] \<and> filter is_submission later = [])"
  proof cases
    case threw
    then show ?thesis by simp
  next
    case exists
    then show ?thesis by simp
  next
    case built
    from createPersonProfile_events[OF built(2)] built(1) show ?thesis by auto
  qed
  then show "filter is_callback evs = []" "filter is_callback later = []"
    "filter is_submission evs = []" "filter is_submission later = []"
    by simp_all
qed

text \<open>
  Every settled chain has called the callback once, with no error, and thrown nothing.
\<close>

lemma provision_calls_back_once:
  "raised (provision E u cfg g md uid) = None \<and>
   filter is_callback (events (provision E u cfg g md uid)) = [Callback None]"
proof (cases rule: provision_cases[of E cfg g u md uid])
  case (no_profile e g1 ev1)
  with getPersonProfile_quiet(1)[OF no_profile(1)] show ?thesis by simp
next
  case (handler_threw profile g1 ev1 e md1 ev2 later)
  with getPersonProfile_quiet(1)[OF handler_threw(1)] existence_handler_quiet(1,2)[OF handler_threw(2)]
  show ?thesis by simp
next
  case (post_failed profile g1 ev1 profile' md1 ev2 later e g2 ev3)
  with getPersonProfile_quiet(1)[OF post_failed(1)] existence_handler_quiet(1,2)[OF post_failed(2)]
    postProfile_quiet[OF post_failed(3)]
  show ?thesis by simp
next
  case (refused profile g1 ev1 profile' md1 ev2 later response g2 ev3 e md2 ev4 later')
  from response_handler_events[OF refused(4)]
  have "filter is_callback ev4 = [] \<and> filter is_callback later' = []" by auto
  with refused(5) getPersonProfile_quiet(1)[OF refused(1)] existence_handler_quiet(1,2)[OF refused(2)]
    postProfile_quiet[OF refused(3)]
  show ?thesis by simp
next
  case (created profile g1 ev1 profile' md1 ev2 later response g2 ev3 finished md2 ev4 later')
  from response_handler_events[OF created(4)]
  have "filter is_callback ev4 = [Callback None] \<and> filter is_callback later' = []" by auto
  with created(5) getPersonProfile_quiet(1)[OF created(1)] existence_handler_quiet(1,2)[OF created(2)]
    postProfile_quiet[OF created(3)]
  show ?thesis by simp
qed

lemma getPersonProfile_found:
  assumes "getPersonProfile E cfg g = (Inr p, g1, ev1)"
  shows "store_response E = Body p \<and> filter is_submission ev1 = [] \<and> filter is_callback ev1 = [] \<and>
         BuildProfile \<notin> set ev1 \<and> SignProfile \<notin> set ev1"
  using getPersonProfile_events[OF assms] by (cases "store_response E") auto

lemma getPersonProfile_unasked:
  assumes "getPersonProfile E cfg g = (Inl e, g1, ev1)" and "store_response E = Body p"
  shows "ev1 = [] \<or> ev1 = [TokenRequest (personapi_oauth_url cfg)]"
  using getPersonProfile_events[OF assms(1)] assms(2) by auto

lemma postProfile_answered:
  assumes "postProfile E cfg g profile = (Inr r, g2, ev3)"
  shows "submit_response E = Body r"
  using postProfile_events[OF assms] by (cases "submit_response E") auto

lemma postProfile_unsent:
  assumes "postProfile E cfg g profile = (Inl e, g2, ev3)" and "submit_response E = Body r"
  shows "ev3 = [] \<or> ev3 = [TokenRequest (personapi_oauth_url cfg)]"
  using postProfile_events[OF assms(1)] assms(2) by auto

lemma existence_handler_built:
  assumes "existence_handler E u cfg md uid profile = (Inr profile', md1, ev2, later)"
  shows "object_keys_length profile = Inr 0 \<and> md1 = md \<and> later = [] \<and>
         createPersonProfile (jwt_sign E) (now_iso E) u uid
           (parse_null_profile E (changeapi_null_profile cfg)) = (Inr profile', ev2)"
  using existence_handler_events[OF assms] by auto

lemma existence_handler_found:
  assumes "existence_handler E u cfg md uid profile = (Inl e, md1, ev2, later)"
    and "object_keys_length profile = Inr n" and "n \<noteq> 0"
  shows "md1 = AList.update ''existsInCIS'' (JBool True) md \<and> ev2 = [UpdateUserMetadata uid md1] \<and>
         later = [UpdateSettled (update_fulfilled E)]"
  using existence_handler_events[OF assms(1)] assms(2,3) by auto

text \<open>
  C8. In every run that asks the store and gets a body with at least one member
  (\<^verbatim>\<open>Object.keys(profile).length !== 0\<close>), the metadata mapping ends with
  \<^verbatim>\<open>existsInCIS\<close> true, the update of the metadata is called with that mapping, the
  profile is neither built nor signed, nothing is submitted, and the callback is called
  once with no error.
\<close>

theorem existing_profile_is_marked_not_submitted:
  assumes "StoreGet bearer \<in> set (events (rule E u c cfg g))"
    and "store_response E = Body profile"
    and "object_keys_length profile = Inr n" and "n \<noteq> 0"
  shows "map_of (metadata_after (rule E u c cfg g)) ''existsInCIS'' = Some (JBool True) \<and>
         UpdateUserMetadata (USER_ID_of u c) (metadata_after (rule E u c cfg g))
           \<in> set (events (rule E u c cfg g)) \<and>
         BuildProfile \<notin> set (events (rule E u c cfg g)) \<and>
         SignProfile \<notin> set (events (rule E u c cfg g)) \<and>
         filter is_submission (events (rule E u c cfg g)) = [] \<and>
         raised (rule E u c cfg g) = None \<and>
         filter is_callback (events (rule E u c cfg g)) = [Callback None]"
proof (cases rule: rule_cases[of cfg E u c g])
  case thrown
  with assms(1) show ?thesis by simp
next
  case stopped
  with assms(1) show ?thesis by simp
next
  case chain
  show ?thesis
  proof (cases rule: provision_cases[of E cfg g u "METADATA_of u c" "USER_ID_of u c"])
    case (no_profile e g1 ev1)
    from getPersonProfile_unasked[OF no_profile(1) assms(2)] no_profile(2) chain assms(1)
    show ?thesis by auto
  next
    case (handler_threw p g1 ev1 e md1 ev2 later)
    from getPersonProfile_found[OF handler_threw(1)] assms(2)
    have p: "p = profile" and q: "filter is_submission ev1 = []" "filter is_callback ev1 = []"
      "BuildProfile \<notin> set ev1" "SignProfile \<notin> set ev1"
      by simp_all
    from existence_handler_found[OF handler_threw(2)[unfolded p] assms(3,4)]
    have m: "md1 = AList.update ''existsInCIS'' (JBool True) (METADATA_of u c)"
      "ev2 = [UpdateUserMetadata (USER_ID_of u c) md1]" "later = [UpdateSettled (update_fulfilled E)]"
      by simp_all
    from m(1) have "map_of md1 ''existsInCIS'' = Some (JBool True)" by (simp add: update_conv')
    with chain handler_threw(3) q m(2,3) show ?thesis by simp
  next
    case (post_failed p g1 ev1 profile' md1 ev2 later e g2 ev3)
    from getPersonProfile_found[OF post_failed(1)] assms(2) have "p = profile" by simp
    with existence_handler_built[OF post_failed(2)] assms(3,4) show ?thesis by simp
  next
    case (refused p g1 ev1 profile' md1 ev2 later response g2 ev3 e md2 ev4 later')
    from getPersonProfile_found[OF refused(1)] assms(2) have "p = profile" by simp
    with existence_handler_built[OF refused(2)] assms(3,4) show ?thesis by simp
  next
    case (created p g1 ev1 profile' md1 ev2 later response g2 ev3 finished md2 ev4 later')
    from getPersonProfile_found[OF created(1)] assms(2) have "p = profile" by simp
    with existence_handler_built[OF created(2)] assms(3,4) show ?thesis by simp
  qed
qed

text \<open>
  In the world where the store has a profile of the example user: one token request,
  the store request, the update of the metadata, the callback.
\<close>

theorem existing_profile_is_marked_not_submitted_witness:
  "StoreGet (JStr ''token'') \<in> set (events (rule existing_env example_user example_context example_configuration empty_globals)) \<and>
   store_response existing_env = Body (JObj [(''uuid'', JStr ''c0ffee'')]) \<and>
   object_keys_length (JObj [(''uuid'', JStr ''c0ffee'')]) = Inr 1 \<and>
   map_of (metadata_after (rule existing_env example_user example_context example_configuration empty_globals))
     ''existsInCIS'' = Some (JBool True) \<and>
   BuildProfile \<notin> set (events (rule existing_env example_user example_context example_configuration empty_globals)) \<and>
   SignProfile \<notin> set (events (rule existing_env example_user example_context example_configuration empty_globals)) \<and>
   filter is_submission (events (rule existing_env example_user example_context example_configuration empty_globals)) = [] \<and>
   filter is_callback (events (rule existing_env example_user example_context example_configuration empty_globals))
     = [Callback None]"
proof -
  have ev: "events (rule existing_env example_user example_context example_configuration empty_globals) =
    [TokenRequest (Some ''https://auth.mozilla.auth0.com/oauth/token''), StoreGet (JStr ''token''),
     UpdateUserMetadata (JStr ''github|12345'') [(''existsInCIS'', JBool True)],
     Callback None, UpdateSettled True]"
    by code_simp
  then have h1: "StoreGet (JStr ''token'') \<in> set (events (rule existing_env example_user example_context example_configuration empty_globals))"
    by simp
  have h2: "store_response existing_env = Body (JObj [(''uuid'', JStr ''c0ffee'')])"
    by (simp add: existing_env_def example_env_def)
  have h3: "object_keys_length (JObj [(''uuid'', JStr ''c0ffee'')]) = Inr 1" by simp
  from existing_profile_is_marked_not_submitted[OF h1 h2 h3] h1 h2 h3 show ?thesis by simp
qed

lemma signFields_null_member:
  "isl (signFields jwt (before @ (k, JNull) # after))"
proof (induction before)
  case Nil
  show ?case by simp
next
  case (Cons kv before)
  obtain k0 v0 where kv: "kv = (k0, v0)" by (cases kv)
  show ?case
  proof (cases "signChild jwt v0")
    case (Inl e)
    with kv show ?thesis by simp
  next
    case (Inr v0')
    with kv Cons.IH show ?thesis
      by (cases "signFields jwt (before @ (k, JNull) # after)") simp_all
  qed
qed

text \<open>
  C9. The function \<^verbatim>\<open>signAll\<close> gives to \<^verbatim>\<open>forEach\<close> returns an array, a string, a number
  and a boolean as they are, whatever they hold, and throws a \<^verbatim>\<open>TypeError\<close> on \<^verbatim>\<open>null\<close>.
  So a list of additional signatures is passed over with its entries unvisited, and the
  traversal of an object with a \<^verbatim>\<open>null\<close> member throws. When the decoded skeleton is
  populated without an exception and the signing throws, the run that got as far as the
  signing throws nothing to the caller, calls the callback once with no error, and
  submits nothing.
\<close>

theorem signAll_passes_over_non_objects:
  "signChild jwt (JArr xs ps) = Inr (JArr xs ps) \<and>
   signChild jwt (JStr s) = Inr (JStr s) \<and>
   signChild jwt (JNum n) = Inr (JNum n) \<and>
   signChild jwt (JBool b) = Inr (JBool b) \<and>
   signChild jwt JNull = Inl TypeError \<and>
   signAll jwt (JObj [(''additional'', JArr entries ps)]) = Inr (JObj [(''additional'', JArr entries ps)]) \<and>
   isl (signAll jwt (JObj (before @ (k, JNull) # after))) \<and>
   (parse_null_profile E (changeapi_null_profile cfg) = Inr skeleton \<and>
    \<not> isl (populate (now_iso E) u (USER_ID_of u c) skeleton) \<and>
    isl (fst (createPersonProfile (jwt_sign E) (now_iso E) u (USER_ID_of u c) (Inr skeleton))) \<and>
    SignProfile \<in> set (events (rule E u c cfg g))
    \<longrightarrow> raised (rule E u c cfg g) = None \<and>
        filter is_callback (events (rule E u c cfg g)) = [Callback None] \<and>
        filter is_submission (events (rule E u c cfg g)) = [])"
proof -
  have traversal: "isl (signAll jwt (JObj (before @ (k, JNull) # after)))"
    using signFields_null_member[of jwt before k after]
    by (cases "signFields jwt (before @ (k, JNull) # after)") simp_all
  have orchestrator: "raised (rule E u c cfg g) = None \<and>
        filter is_callback (events (rule E u c cfg g)) = [Callback None] \<and>
        filter is_submission (events (rule E u c cfg g)) = []"
    if parsed: "parse_null_profile E (changeapi_null_profile cfg) = Inr skeleton"
    and threw: "isl (fst (createPersonProfile (jwt_sign E) (now_iso E) u (USER_ID_of u c) (Inr skeleton)))"
    and signing: "SignProfile \<in> set (events (rule E u c cfg g))"
  proof (cases rule: rule_cases[of cfg E u c g])
    case thrown
    with signing show ?thesis by simp
  next
    case stopped
    with signing show ?thesis by simp
  next
    case chain
    note once = provision_calls_back_once[of E u cfg g "METADATA_of u c" "USER_ID_of u c"]
    have "filter is_submission (events (provision E u cfg g (METADATA_of u c) (USER_ID_of u c))) = []"
    proof (cases rule: provision_cases[of E cfg g u "METADATA_of u c" "USER_ID_of u c"])
      case (no_profile e g1 ev1)
      with getPersonProfile_quiet(2)[OF no_profile(1)] show ?thesis by simp
    next
      case (handler_threw p g1 ev1 e md1 ev2 later)
      with getPersonProfile_quiet(2)[OF handler_threw(1)] existence_handler_quiet(3,4)[OF handler_threw(2)]
      show ?thesis by simp
    next
      case (post_failed p g1 ev1 profile' md1 ev2 later e g2 ev3)
      from existence_handler_built[OF post_failed(2)] parsed threw show ?thesis by simp
    next
      case (refused p g1 ev1 profile' md1 ev2 later response g2 ev3 e md2 ev4 later')
      from existence_handler_built[OF refused(2)] parsed threw show ?thesis by simp
    next
      case (created p g1 ev1 profile' md1 ev2 later response g2 ev3 finished md2 ev4 later')
      from existence_handler_built[OF created(2)] parsed threw show ?thesis by simp
    qed
    with once chain show ?thesis by simp
  qed
  from traversal orchestrator show ?thesis by simp
qed

text \<open>
  The broken skeleton has a \<^verbatim>\<open>null\<close> member: the profile of the example user is populated,
  the signing throws, and the run ends with the callback.
\<close>

theorem signAll_passes_over_non_objects_witness:
  "parse_null_profile broken_env (changeapi_null_profile example_configuration) = Inr broken_skeleton \<and>
   \<not> isl (populate (now_iso broken_env) example_user (USER_ID_of example_user example_context) broken_skeleton) \<and>
   isl (fst (createPersonProfile (jwt_sign broken_env) (now_iso broken_env) example_user
              (USER_ID_of example_user example_context) (Inr broken_skeleton))) \<and>
   events (rule broken_env example_user example_context example_configuration empty_globals) =
     [TokenRequest (Some ''https://auth.mozilla.auth0.com/oauth/token''), StoreGet (JStr ''token''),
      BuildProfile, SignProfile, Callback None] \<and>
   raised (rule broken_env example_user example_context example_configuration empty_globals) = None \<and>
   filter is_submission (events (rule broken_env example_user example_context example_configuration empty_globals)) = []"
proof -
  have h1: "parse_null_profile broken_env (changeapi_null_profile example_configuration) = Inr broken_skeleton"
    by (simp add: broken_env_def example_env_def)
  have h2: "\<not> isl (populate (now_iso broken_env) example_user (USER_ID_of example_user example_context) broken_skeleton)"
    by code_simp
  have h3: "isl (fst (createPersonProfile (jwt_sign broken_env) (now_iso broken_env) example_user
              (USER_ID_of example_user example_context) (Inr broken_skeleton)))"
    by code_simp
  have ev: "events (rule broken_env example_user example_context example_configuration empty_globals) =
     [TokenRequest (Some ''https://auth.mozilla.auth0.com/oauth/token''), StoreGet (JStr ''token''),
      BuildProfile, SignProfile, Callback None]"
    by code_simp
  then have h4: "SignProfile \<in> set (events (rule broken_env example_user example_context example_configuration empty_globals))"
    by simp
  from signAll_passes_over_non_objects[where E = broken_env and cfg = example_configuration
      and skeleton = broken_skeleton and u = example_user and c = example_context and g = empty_globals]
    h1 h2 h3 h4 ev
  show ?thesis by simp
qed

lemma in_set_is_submission: "SubmitPost b p \<in> set evs \<Longrightarrow> filter is_submission evs \<noteq> []"
  by (induction evs) auto

lemma response_handler_accepting:
  assumes "response_handler E md uid response = (res, md', evs, later)"
    and "constructor_is_Object response" and "member response ''status_code'' = JNum 200"
  shows "\<not> isl res \<and> md' = AList.update ''existsInCIS'' (JBool True) md \<and>
         evs = [UpdateUserMetadata uid md', Callback None] \<and>
         later = [UpdateSettled (update_fulfilled E)]"
  using response_handler_events[OF assms(1)] assms(2,3) by auto

text \<open>The outcome of the update is read nowhere but in the event of its settling.\<close>

lemma update_outcome_unread:
  "getPersonProfile (E\<lparr>update_fulfilled := b\<rparr>) cfg g = getPersonProfile E cfg g"
  "postProfile (E\<lparr>update_fulfilled := b\<rparr>) cfg g p = postProfile E cfg g p"
  "fst (existence_handler (E\<lparr>update_fulfilled := b\<rparr>) u cfg md uid p) = fst (existence_handler E u cfg md uid p)"
  "fst (snd (existence_handler (E\<lparr>update_fulfilled := b\<rparr>) u cfg md uid p))
     = fst (snd (existence_handler E u cfg md uid p))"
  "fst (response_handler (E\<lparr>update_fulfilled := b\<rparr>) md uid r) = fst (response_handler E md uid r)"
  "fst (snd (response_handler (E\<lparr>update_fulfilled := b\<rparr>) md uid r))
     = fst (snd (response_handler E md uid r))"
  by (simp_all add: getPersonProfile_def postProfile_def existence_handler_def response_handler_def
        setExistsInCIS_def Let_def split: sum.splits prod.splits)

lemma provision_result:
  "metadata_after (provision E u cfg g md uid) =
     (case getPersonProfile E cfg g of
        (Inl e, g1, ev1) \<Rightarrow> md
      | (Inr profile, g1, ev1) \<Rightarrow>
          (case fst (existence_handler E u cfg md uid profile) of
             Inl e \<Rightarrow> fst (snd (existence_handler E u cfg md uid profile))
           | Inr profile' \<Rightarrow>
               (case postProfile E cfg g1 profile' of
                  (Inl e, g2, ev3) \<Rightarrow> fst (snd (existence_handler E u cfg md uid profile))
                | (Inr response, g2, ev3) \<Rightarrow>
                    fst (snd (response_handler E
                      (fst (snd (existence_handler E u cfg md uid profile))) uid response)))))"
  "globals_after (provision E u cfg g md uid) =
     (case getPersonProfile E cfg g of
        (Inl e, g1, ev1) \<Rightarrow> g1
      | (Inr profile, g1, ev1) \<Rightarrow>
          (case fst (existence_handler E u cfg md uid profile) of
             Inl e \<Rightarrow> g1
           | Inr profile' \<Rightarrow> fst (snd (postProfile E cfg g1 profile'))))"
  by (cases rule: provision_cases[of E cfg g u md uid]; simp)+

lemma provision_update_outcome:
  "metadata_after (provision (E\<lparr>update_fulfilled := b\<rparr>) u cfg g md uid)
     = metadata_after (provision E u cfg g md uid)"
  "globals_after (provision (E\<lparr>update_fulfilled := b\<rparr>) u cfg g md uid)
     = globals_after (provision E u cfg g md uid)"
  by (simp_all add: provision_result update_outcome_unread cong: sum.case_cong prod.case_cong)

text \<open>
  C10. \<^verbatim>\<open>setExistsInCIS\<close> sets \<^verbatim>\<open>existsInCIS\<close> in the metadata mapping whatever the outcome
  of the update, and the update is called with the mapping already changed. In a run
  that submits and gets a plain object with status code 200, the events end with the
  call of the update, then the callback, then the settling of the update: the callback
  does not wait for it. And the outcome of the update changes neither what is thrown,
  nor the calls of the callback, nor the metadata mapping, nor the globals.
\<close>

theorem provisioned_flag_is_set_before_the_update_and_not_awaited:
  "fst (setExistsInCIS fulfilled uid md) = AList.update ''existsInCIS'' (JBool True) md \<and>
   map_of (fst (setExistsInCIS fulfilled uid md)) ''existsInCIS'' = Some (JBool True) \<and>
   fst (snd (setExistsInCIS fulfilled uid md)) = [UpdateUserMetadata uid (fst (setExistsInCIS fulfilled uid md))] \<and>
   (SubmitPost bearer profile \<in> set (events (rule E u c cfg g)) \<and>
    submit_response E = Body response \<and>
    constructor_is_Object response \<and> member response ''status_code'' = JNum 200
    \<longrightarrow> (\<exists>before. events (rule E u c cfg g) =
           before @ [UpdateUserMetadata (USER_ID_of u c) (metadata_after (rule E u c cfg g)),
                     Callback None, UpdateSettled (update_fulfilled E)]) \<and>
        map_of (metadata_after (rule E u c cfg g)) ''existsInCIS'' = Some (JBool True)) \<and>
   raised (rule (E\<lparr>update_fulfilled := False\<rparr>) u c cfg g) = raised (rule (E\<lparr>update_fulfilled := True\<rparr>) u c cfg g) \<and>
   filter is_callback (events (rule (E\<lparr>update_fulfilled := False\<rparr>) u c cfg g))
     = filter is_callback (events (rule (E\<lparr>update_fulfilled := True\<rparr>) u c cfg g)) \<and>
   metadata_after (rule (E\<lparr>update_fulfilled := False\<rparr>) u c cfg g)
     = metadata_after (rule (E\<lparr>update_fulfilled := True\<rparr>) u c cfg g) \<and>
   globals_after (rule (E\<lparr>update_fulfilled := False\<rparr>) u c cfg g)
     = globals_after (rule (E\<lparr>update_fulfilled := True\<rparr>) u c cfg g)"
proof -
  have flag: "fst (setExistsInCIS fulfilled uid md) = AList.update ''existsInCIS'' (JBool True) md \<and>
      map_of (fst (setExistsInCIS fulfilled uid md)) ''existsInCIS'' = Some (JBool True) \<and>
      fst (snd (setExistsInCIS fulfilled uid md)) = [UpdateUserMetadata uid (fst (setExistsInCIS fulfilled uid md))]"
    by (simp add: setExistsInCIS_def Let_def update_conv')
  have success: "(\<exists>before. events (rule E u c cfg g) =
           before @ [UpdateUserMetadata (USER_ID_of u c) (metadata_after (rule E u c cfg g)),
                     Callback None, UpdateSettled (update_fulfilled E)]) \<and>
        map_of (metadata_after (rule E u c cfg g)) ''existsInCIS'' = Some (JBool True)"
    if sent: "SubmitPost bearer profile \<in> set (events (rule E u c cfg g))"
    and answer: "submit_response E = Body response"
    and ok: "constructor_is_Object response" "member response ''status_code'' = JNum 200"
  proof (cases rule: rule_cases[of cfg E u c g])
    case thrown
    with sent show ?thesis by simp
  next
    case stopped
    with sent show ?thesis by simp
  next
    case chain
    from sent chain have sub:
      "filter is_submission (events (provision E u cfg g (METADATA_of u c) (USER_ID_of u c))) \<noteq> []"
      using in_set_is_submission by simp
    show ?thesis
    proof (cases rule: provision_cases[of E cfg g u "METADATA_of u c" "USER_ID_of u c"])
      case (no_profile e g1 ev1)
      with getPersonProfile_quiet(2)[OF no_profile(1)] sub show ?thesis by simp
    next
      case (handler_threw p g1 ev1 e md1 ev2 later)
      with getPersonProfile_quiet(2)[OF handler_threw(1)] existence_handler_quiet(3,4)[OF handler_threw(2)] sub
      show ?thesis by simp
    next
      case (post_failed p g1 ev1 profile' md1 ev2 later e g2 ev3)
      from postProfile_unsent[OF post_failed(3) answer] have "filter is_submission ev3 = []" by auto
      with post_failed(4) getPersonProfile_quiet(2)[OF post_failed(1)]
        existence_handler_quiet(3,4)[OF post_failed(2)] sub
      show ?thesis by simp
    next
      case (refused p g1 ev1 profile' md1 ev2 later r g2 ev3 e md2 ev4 later')
      from postProfile_answered[OF refused(3)] answer have "r = response" by simp
      with response_handler_accepting[OF refused(4)] ok show ?thesis by simp
    next
      case (created p g1 ev1 profile' md1 ev2 later r g2 ev3 finished md2 ev4 later')
      from postProfile_answered[OF created(3)] answer have r: "r = response" by simp
      from existence_handler_built[OF created(2)] have b: "md1 = METADATA_of u c" "later = []" by simp_all
      from response_handler_accepting[OF created(4)[unfolded r] ok]
      have a: "md2 = AList.update ''existsInCIS'' (JBool True) md1"
        "ev4 = [UpdateUserMetadata (USER_ID_of u c) md2, Callback None]"
        "later' = [UpdateSettled (update_fulfilled E)]"
        by simp_all
      from a(1) have "map_of md2 ''existsInCIS'' = Some (JBool True)" by (simp add: update_conv')
      moreover have "events (rule E u c cfg g) =
          (ev1 @ ev2 @ ev3) @ [UpdateUserMetadata (USER_ID_of u c) md2, Callback None,
                              UpdateSettled (update_fulfilled E)]"
        using chain created(5) a(2,3) b(2) by simp
      moreover have "metadata_after (rule E u c cfg g) = md2" using chain created(5) by simp
      ultimately show ?thesis by blast
    qed
  qed
  have same: "raised (rule (E\<lparr>update_fulfilled := False\<rparr>) u c cfg g) = raised (rule (E\<lparr>update_fulfilled := True\<rparr>) u c cfg g) \<and>
     filter is_callback (events (rule (E\<lparr>update_fulfilled := False\<rparr>) u c cfg g))
       = filter is_callback (events (rule (E\<lparr>update_fulfilled := True\<rparr>) u c cfg g)) \<and>
     metadata_after (rule (E\<lparr>update_fulfilled := False\<rparr>) u c cfg g)
       = metadata_after (rule (E\<lparr>update_fulfilled := True\<rparr>) u c cfg g) \<and>
     globals_after (rule (E\<lparr>update_fulfilled := False\<rparr>) u c cfg g)
       = globals_after (rule (E\<lparr>update_fulfilled := True\<rparr>) u c cfg g)"
    by (simp add: rule_def provision_calls_back_once provision_update_outcome split: sum.splits)
  from flag success same show ?thesis by blast
qed

text \<open>
  The example world, where every call succeeds: the callback comes right after the call
  of the update and before its settling.
\<close>

theorem provisioned_flag_is_set_before_the_update_and_not_awaited_witness:
  "SubmitPost (JStr ''token'')
     (projr (fst (createPersonProfile (jwt_sign example_env) (now_iso example_env) example_user
                    (USER_ID_of example_user example_context) (Inr example_skeleton))))
     \<in> set (events (rule example_env example_user example_context example_configuration empty_globals)) \<and>
   submit_response example_env = Body (JObj [(''status_code'', JNum 200)]) \<and>
   constructor_is_Object (JObj [(''status_code'', JNum 200)]) \<and>
   member (JObj [(''status_code'', JNum 200)]) ''status_code'' = JNum 200 \<and>
   (\<exists>before. events (rule example_env example_user example_context example_configuration empty_globals) =
      before @ [UpdateUserMetadata (USER_ID_of example_user example_context)
                  (metadata_after (rule example_env example_user example_context example_configuration empty_globals)),
                Callback None, UpdateSettled (update_fulfilled example_env)]) \<and>
   map_of (metadata_after (rule example_env example_user example_context example_configuration empty_globals))
     ''existsInCIS'' = Some (JBool True)"
proof -
  have h1: "SubmitPost (JStr ''token'')
     (projr (fst (createPersonProfile (jwt_sign example_env) (now_iso example_env) example_user
                    (USER_ID_of example_user example_context) (Inr example_skeleton))))
     \<in> set (events (rule example_env example_user example_context example_configuration empty_globals))"
    by code_simp
  have h2: "submit_response example_env = Body (JObj [(''status_code'', JNum 200)])"
    by (simp add: example_env_def)
  have h3: "constructor_is_Object (JObj [(''status_code'', JNum 200)])"
    "member (JObj [(''status_code'', JNum 200)]) ''status_code'' = JNum 200"
    by (simp_all add: member_def)
  from provisioned_flag_is_set_before_the_update_and_not_awaited[where E = example_env
      and u = example_user and c = example_context and cfg = example_configuration
      and g = empty_globals and bearer = "JStr ''token''"
      and profile = "projr (fst (createPersonProfile (jwt_sign example_env) (now_iso example_env) example_user
                    (USER_ID_of example_user example_context) (Inr example_skeleton)))"
      and response = "JObj [(''status_code'', JNum 200)]"] h1 h2 h3
  show ?thesis by blast
qed

section \<open>The configuration gate and the token cache\<close>

text \<open>
  C1 fails on the code at the audience and at the OAuth URL: the gate of lines 14 to 19
  tests six of the eight settings. With the audience absent, line 28 calls \<^verbatim>\<open>includes\<close>
  on \<^verbatim>\<open>undefined\<close>: the rule throws a \<^verbatim>\<open>TypeError\<close> and never calls the callback. With the
  OAuth URL absent the gate lets the run through: with a token in the cache, the store is
  asked and the metadata updated.
\<close>

theorem gate_misses_audience_and_oauth_url:
  "raised (rule example_env example_user example_context
            (example_configuration\<lparr>personapi_audience := None\<rparr>) empty_globals) = Some TypeError \<and>
   events (rule example_env example_user example_context
            (example_configuration\<lparr>personapi_audience := None\<rparr>) empty_globals) = [] \<and>
   events (rule existing_env example_user example_context
            (example_configuration\<lparr>personapi_oauth_url := None\<rparr>) warm_globals) =
     [StoreGet (JStr ''cached''),
      UpdateUserMetadata (JStr ''github|12345'') [(''existsInCIS'', JBool True)],
      Callback None, UpdateSettled True] \<and>
   length (filter is_network_call (events (rule existing_env example_user example_context
            (example_configuration\<lparr>personapi_oauth_url := None\<rparr>) warm_globals))) = 2"
  by code_simp

text \<open>
  C2 fails on the code where the audience is not configured: whatever the user, the
  context, the world and the globals, when the six settings of the gate are there and
  the audience is absent, the rule throws a \<^verbatim>\<open>TypeError\<close> to its caller and the callback
  is not called. (By \<open>provision_calls_back_once\<close> and \<open>rule_cases\<close>, every other run calls
  the callback once with no error.)
\<close>

theorem absent_audience_is_thrown_to_the_caller:
  assumes "\<not> missing (changeapi_auth0_private_key cfg)" "\<not> missing (changeapi_null_profile cfg)"
    "\<not> missing (changeapi_url cfg)" "\<not> missing (personapi_client_id cfg)"
    "\<not> missing (personapi_client_secret cfg)" "\<not> missing (personapi_url cfg)"
    and "personapi_audience cfg = None"
  shows "raised (rule E u c cfg g) = Some TypeError \<and> filter is_callback (events (rule E u c cfg g)) = []"
  using assms by (simp add: rule_def)

theorem absent_audience_is_thrown_to_the_caller_witness:
  "\<not> missing (changeapi_auth0_private_key (example_configuration\<lparr>personapi_audience := None\<rparr>)) \<and>
   \<not> missing (changeapi_null_profile (example_configuration\<lparr>personapi_audience := None\<rparr>)) \<and>
   \<not> missing (changeapi_url (example_configuration\<lparr>personapi_audience := None\<rparr>)) \<and>
   \<not> missing (personapi_client_id (example_configuration\<lparr>personapi_audience := None\<rparr>)) \<and>
   \<not> missing (personapi_client_secret (example_configuration\<lparr>personapi_audience := None\<rparr>)) \<and>
   \<not> missing (personapi_url (example_configuration\<lparr>personapi_audience := None\<rparr>)) \<and>
   personapi_audience (example_configuration\<lparr>personapi_audience := None\<rparr>) = None \<and>
   raised (rule existing_env linked_user example_context
             (example_configuration\<lparr>personapi_audience := None\<rparr>) warm_globals) = Some TypeError \<and>
   filter is_callback (events (rule existing_env linked_user example_context
             (example_configuration\<lparr>personapi_audience := None\<rparr>) warm_globals)) = []"
proof -
  have h: "\<not> missing (changeapi_auth0_private_key (example_configuration\<lparr>personapi_audience := None\<rparr>))"
    "\<not> missing (changeapi_null_profile (example_configuration\<lparr>personapi_audience := None\<rparr>))"
    "\<not> missing (changeapi_url (example_configuration\<lparr>personapi_audience := None\<rparr>))"
    "\<not> missing (personapi_client_id (example_configuration\<lparr>personapi_audience := None\<rparr>))"
    "\<not> missing (personapi_client_secret (example_configuration\<lparr>personapi_audience := None\<rparr>))"
    "\<not> missing (personapi_url (example_configuration\<lparr>personapi_audience := None\<rparr>))"
    "personapi_audience (example_configuration\<lparr>personapi_audience := None\<rparr>) = None"
    by (simp_all add: example_configuration_def)
  from absent_audience_is_thrown_to_the_caller[OF h, of existing_env linked_user example_context warm_globals] h
  show ?thesis by simp
qed

text \<open>
  C3 fails on the code at the refresh window. \<^verbatim>\<open>Date.now()\<close> counts milliseconds and the
  constant is 64800, which its comment calls 18 hours: a token cached 100 seconds ago
  (100000 milliseconds, well below 18 hours) is not reused; a token request is made and
  the cache replaced.
\<close>

theorem token_cached_100_seconds_ago_is_refetched:
  "(1577836900000 :: int) - 1577836800000 < 18 * 60 * 60 * 1000 \<and>
   getBearerToken example_configuration
     \<lparr>personapi_bearer_token = JStr ''cached'', personapi_bearer_token_creation_time = Some 1577836800000\<rparr>
     1577836900000 1577836900250 (Body (JObj [(''access_token'', JStr ''fresh'')])) =
   (Inr (JStr ''fresh''),
    \<lparr>personapi_bearer_token = JStr ''fresh'', personapi_bearer_token_creation_time = Some 1577836900250\<rparr>,
    [TokenRequest (Some ''https://auth.mozilla.auth0.com/oauth/token'')])"
  by (simp add: getBearerToken_def PERSONAPI_BEARER_TOKEN_REFRESH_AGE_def example_configuration_def)

end
